theory Spec2Isabelle
  imports Main
begin

section \<open>Python values\<close>

text \<open>
  The modules handle JSON-like Python values: the parameters handed over by the host
  framework, the request payloads and the \<open>metadata\<close> of a response. A Python
  \<open>dict\<close> is an association list in insertion order; Python dictionaries have no
  duplicate keys, and \<open>dict_set\<close> keeps it that way. Floats do not occur in the
  modelled code paths and are left out.
\<close>

datatype pyval =
    PNone
  | PBool bool
  | PInt int
  | PStr string
  | PList "pyval list"
  | PDict "(string \<times> pyval) list"

type_synonym dict = "(string \<times> pyval) list"

text \<open>\<open>d[k] = v\<close>: an existing key keeps its position, a new key goes last.\<close>

fun dict_set :: "string \<Rightarrow> pyval \<Rightarrow> dict \<Rightarrow> dict" where
  "dict_set k v [] = [(k, v)]"
| "dict_set k v ((k', w) # d) = (if k = k' then (k, v) # d else (k', w) # dict_set k v d)"

text \<open>
  Python's \<open>==\<close> on these values: \<open>True == 1\<close> and \<open>False == 0\<close>, lists are compared
  element by element, dictionaries key by key whatever the insertion order.
  \<open>a != b\<close> is \<open>\<not> py_eq a b\<close>.
\<close>

fun py_eq :: "pyval \<Rightarrow> pyval \<Rightarrow> bool" where
  "py_eq PNone PNone = True"
| "py_eq (PBool a) (PBool b) = (a = b)"
| "py_eq (PInt a) (PInt b) = (a = b)"
| "py_eq (PBool a) (PInt b) = ((if a then 1 else 0) = b)"
| "py_eq (PInt a) (PBool b) = (a = (if b then 1 else 0))"
| "py_eq (PStr a) (PStr b) = (a = b)"
| "py_eq (PList xs) (PList ys) = list_all2 py_eq xs ys"
| "py_eq (PDict a) (PDict b) =
     (list_all (\<lambda>e. list_ex (\<lambda>f. fst e = fst f \<and> py_eq (snd e) (snd f)) b) a \<and>
      list_all (\<lambda>f. list_ex (\<lambda>e. fst e = fst f \<and> py_eq (snd e) (snd f)) a) b)"
| "py_eq _ _ = False"

text \<open>Truthiness, as used by \<open>if x:\<close> and \<open>x or y\<close>.\<close>

fun py_truthy :: "pyval \<Rightarrow> bool" where
  "py_truthy PNone = False"
| "py_truthy (PBool b) = b"
| "py_truthy (PInt i) = (i \<noteq> 0)"
| "py_truthy (PStr s) = (s \<noteq> [])"
| "py_truthy (PList xs) = (xs \<noteq> [])"
| "py_truthy (PDict d) = (d \<noteq> [])"

definition py_or :: "pyval \<Rightarrow> pyval \<Rightarrow> pyval" where
  "py_or x y = (if py_truthy x then x else y)"

text \<open>
  \<open>str(v)\<close>. Integers print in decimal, strings are themselves, \<open>None\<close> and the
  booleans print their names. The text of a list or a dictionary is Python's \<open>repr\<close>,
  whose quoting rules are not part of this repository: it is the parameter \<open>crepr\<close>.
\<close>

definition digit_char :: "nat \<Rightarrow> char" where
  "digit_char n = ''0123456789'' ! (n mod 10)"

fun str_nat :: "nat \<Rightarrow> string" where
  "str_nat n = (if n < 10 then [digit_char n] else str_nat (n div 10) @ [digit_char n])"

declare str_nat.simps [simp del]

definition str_int :: "int \<Rightarrow> string" where
  "str_int i = (if i < 0 then CHR ''-'' # str_nat (nat (- i)) else str_nat (nat i))"

fun py_str :: "(pyval \<Rightarrow> string) \<Rightarrow> pyval \<Rightarrow> string" where
  "py_str crepr PNone = ''None''"
| "py_str crepr (PBool b) = (if b then ''True'' else ''False'')"
| "py_str crepr (PInt i) = str_int i"
| "py_str crepr (PStr s) = s"
| "py_str crepr (PList xs) = crepr (PList xs)"
| "py_str crepr (PDict d) = crepr (PDict d)"

section \<open>Transport, exceptions and the state of one invocation\<close>

text \<open>
  \<open>IncusClient.query_raw(method, url, payload=None, ok_errors=None)\<close> lives in
  \<open>module_utils/incuscli\<close>, outside the modelled sources. It is a parameter: a function
  from the request and the remote system's state to either the message of an
  \<open>IncusClientException\<close> or a response, and the remote system's next state.
  A response carries \<open>status_code\<close>, \<open>error_code\<close> and \<open>metadata\<close>.
\<close>

record request =
  meth :: string
  url :: string
  payload :: "pyval option"
  ok_errors :: "int list"

record response =
  status_code :: int
  error_code :: int
  metadata :: pyval

type_synonym 's transport = "request \<Rightarrow> 's \<Rightarrow> (string + response) \<times> 's"

datatype exn =
    IncusClientException string
  | KeyError string
  | AttributeError string
  | PyException string

text \<open>
  What one invocation mutates: the remote system, \<open>self.diff\<close> (its \<open>before\<close> and
  \<open>after\<close> dictionaries), \<open>self.actions\<close> (peer module only), and a ghost log of every
  \<open>query_raw\<close> call with what it returned or raised.
\<close>

record 's mstate =
  remote :: 's
  calls :: "(request \<times> (string + response)) list"
  diff_before :: dict
  diff_after :: dict
  actions :: "string list"

type_synonym ('s, 'a) action = "'s mstate \<Rightarrow> (exn + 'a) \<times> 's mstate"

definition init_state :: "'s \<Rightarrow> 's mstate" where
  "init_state s = \<lparr>remote = s, calls = [], diff_before = [], diff_after = [], actions = []\<rparr>"

definition query_raw :: "'s transport \<Rightarrow> request \<Rightarrow> ('s, response) action" where
  "query_raw tr rq st =
     (case tr rq (remote st) of
        (r, s') \<Rightarrow>
          (case r of Inl m \<Rightarrow> Inl (IncusClientException m) | Inr resp \<Rightarrow> Inr resp,
           st\<lparr>remote := s', calls := calls st @ [(rq, r)]\<rparr>))"

definition get_request :: "string \<Rightarrow> request" where
  "get_request u = \<lparr>meth = ''GET'', url = u, payload = None, ok_errors = [404]\<rparr>"

definition write_request :: "string \<Rightarrow> string \<Rightarrow> pyval option \<Rightarrow> request" where
  "write_request m u p = \<lparr>meth = m, url = u, payload = p, ok_errors = []\<rparr>"

text \<open>A write call is any call whose method is not \<open>GET\<close>.\<close>

definition is_write :: "request \<Rightarrow> bool" where
  "is_write rq = (meth rq \<noteq> ''GET'')"

section \<open>State classification\<close>

text \<open>\<open>_incus_to_module_state(resp_json)\<close>, the same function in all five modules.\<close>

definition incus_to_module_state :: "response \<Rightarrow> exn + string" where
  "incus_to_module_state resp_json =
     (if status_code resp_json = 200 then Inr ''present''
      else if error_code resp_json = 404 then Inr ''absent''
      else Inl (PyException ''unknown resource state''))"

section \<open>The run method\<close>

text \<open>
  \<open>run\<close> is textually the same in the five classes up to the result key (\<open>'acl'\<close>,
  \<open>'zone'\<close>, \<open>'peer'\<close>, \<open>'forward'\<close>, \<open>'loadbalancer'\<close>) and the fetch method, so it is
  written once over both. \<open>lookup\<close> is \<open>getattr(self, ...)\<close>, from a method name to the
  bound method. The \<open>log_verbosity\<close> and \<open>logs\<close> entries of the output are debugging
  output of the client and are left out.
\<close>

definition ACTION_DISPATCH :: dict where
  "ACTION_DISPATCH = [(''present'', PStr ''_present''), (''absent'', PStr ''_absent'')]"

record diff =
  before :: dict
  after :: dict

record result =
  changed :: bool
  old_state :: pyval
  rdiff :: diff
  resource_key :: string
  resource :: pyval

record failure =
  msg :: string
  fchanged :: bool
  fdiff :: diff

datatype outcome =
    Exit_json result
  | Fail_json failure
  | Uncaught exn

definition self_diff :: "'s mstate \<Rightarrow> diff" where
  "self_diff st = \<lparr>before = diff_before st, after = diff_after st\<rparr>"

text \<open>The body of the \<open>try\<close> block.\<close>

definition run_try ::
  "string \<Rightarrow> ('s, response) action \<Rightarrow> (string \<Rightarrow> ('s, response option) action option) \<Rightarrow>
   string \<Rightarrow> ('s, result) action" where
  "run_try key fetch lookup state st0 =
     (case fetch st0 of
        (Inl e, st1) \<Rightarrow> (Inl e, st1)
      | (Inr current, st1) \<Rightarrow>
     let st2 = st1\<lparr>diff_before := dict_set key (metadata current) (diff_before st1)\<rparr> in
     (case incus_to_module_state current of
        Inl e \<Rightarrow> (Inl e, st2)
      | Inr bs \<Rightarrow>
     let st3 = st2\<lparr>diff_before := dict_set ''state'' (PStr bs) (diff_before st2)\<rparr> in
     (case map_of ACTION_DISPATCH state of
        None \<Rightarrow> (Inl (KeyError state), st3)
      | Some (PStr mname) \<Rightarrow>
     (case lookup mname of
        None \<Rightarrow> (Inl (AttributeError mname), st3)
      | Some act \<Rightarrow>
     (case act st3 of
        (Inl e, st4) \<Rightarrow> (Inl e, st4)
      | (Inr _, st4) \<Rightarrow>
     (case fetch st4 of
        (Inl e, st5) \<Rightarrow> (Inl e, st5)
      | (Inr current', st5) \<Rightarrow>
     let st6 = st5\<lparr>diff_after := dict_set key (metadata current') (diff_after st5)\<rparr> in
     (case incus_to_module_state current' of
        Inl e \<Rightarrow> (Inl e, st6)
      | Inr afs \<Rightarrow>
     let st7 = st6\<lparr>diff_after := dict_set ''state'' (PStr afs) (diff_after st6)\<rparr> in
     (case map_of (diff_before st7) key of
        None \<Rightarrow> (Inl (KeyError key), st7)
      | Some b \<Rightarrow>
     (case map_of (diff_after st7) key of
        None \<Rightarrow> (Inl (KeyError key), st7)
      | Some a \<Rightarrow>
     (case map_of (diff_before st7) ''state'' of
        None \<Rightarrow> (Inl (KeyError ''state''), st7)
      | Some os \<Rightarrow>
        (Inr \<lparr>changed = \<not> py_eq b a, old_state = os, rdiff = self_diff st7,
              resource_key = key, resource = a\<rparr>, st7))))))))
      | Some _ \<Rightarrow> (Inl (AttributeError ''attribute name must be string''), st3))))"

text \<open>
  \<open>run\<close>: the \<open>try\<close> block under its one handler, \<open>except IncusClientException\<close>.
  Every other exception leaves \<open>run\<close> uncaught.
\<close>

definition run ::
  "string \<Rightarrow> ('s, response) action \<Rightarrow> (string \<Rightarrow> ('s, response option) action option) \<Rightarrow>
   string \<Rightarrow> 's \<Rightarrow> outcome \<times> 's mstate" where
  "run key fetch lookup state s =
     (case run_try key fetch lookup state (init_state s) of
        (Inr r, st) \<Rightarrow> (Exit_json r, st)
      | (Inl (IncusClientException m), st) \<Rightarrow>
          (Fail_json \<lparr>msg = m, fchanged = False, fdiff = self_diff st\<rparr>, st)
      | (Inl e, st) \<Rightarrow> (Uncaught e, st))"

section \<open>The five modules\<close>

text \<open>
  Each class keeps the validated parameters of the host framework in \<open>self\<close>:
  \<open>state\<close> and \<open>module.check_mode\<close> are common to all five, the other fields are the
  module's own. \<open>'...{0}...'.format(x)\<close> on a string is concatenation.

  Every \<open>_present\<close> and \<open>_absent\<close> ends with
  \<open>if not self.module.check_mode: return self.client.query_raw(...)\<close>, falling through
  to \<open>None\<close> otherwise: this is \<open>unless_check\<close>.
\<close>

record self_base =
  state :: string
  check_mode :: bool
  description :: pyval
  config :: pyval

definition unless_check ::
  "bool \<Rightarrow> 's transport \<Rightarrow> request \<Rightarrow> ('s, response option) action" where
  "unless_check chk client rq st =
     (if \<not> chk then
        (case query_raw client rq st of
           (Inl e, st') \<Rightarrow> (Inl e, st')
         | (Inr r, st') \<Rightarrow> (Inr (Some r), st'))
      else (Inr None, st))"

subsection \<open>incus_network_acl\<close>

record acl_self = self_base +
  acl_name :: string
  acl_project :: string
  acl_ingress :: pyval
  acl_egress :: pyval

definition acl_get_acl :: "'s transport \<Rightarrow> acl_self \<Rightarrow> ('s, response) action" where
  "acl_get_acl client self = query_raw client (get_request (''/1.0/network-acls/'' @ acl_name self))"

definition acl_present :: "'s transport \<Rightarrow> acl_self \<Rightarrow> ('s, response option) action" where
  "acl_present client self st =
     (case map_of (diff_before st) ''state'' of
        None \<Rightarrow> (Inl (KeyError ''state''), st)
      | Some bs \<Rightarrow>
     let method = (if py_eq bs (PStr ''present'') then ''PATCH'' else ''POST'');
         payload = PDict [(''name'', PStr (acl_name self)),
                          (''config'', config self),
                          (''description'', description self),
                          (''egress'', acl_egress self),
                          (''ingress'', acl_ingress self)]
     in if method = ''POST'' then
          unless_check (check_mode self) client
            (write_request method ''/1.0/network-acls'' (Some payload)) st
        else if method = ''PATCH'' then
          unless_check (check_mode self) client
            (write_request method (''/1.0/network-acls/'' @ acl_name self) (Some payload)) st
        else (Inl (PyException ''invalid state''), st))"

definition acl_absent :: "'s transport \<Rightarrow> acl_self \<Rightarrow> ('s, response option) action" where
  "acl_absent client self st =
     (case map_of (diff_before st) ''state'' of
        None \<Rightarrow> (Inl (KeyError ''state''), st)
      | Some bs \<Rightarrow>
        if py_eq bs (PStr ''absent'') then (Inr None, st)
        else unless_check (check_mode self) client
               (write_request ''DELETE'' (''/1.0/network-acls/'' @ acl_name self) None) st)"

definition acl_getattr ::
  "'s transport \<Rightarrow> acl_self \<Rightarrow> string \<Rightarrow> ('s, response option) action option" where
  "acl_getattr client self m =
     (if m = ''_present'' then Some (acl_present client self)
      else if m = ''_absent'' then Some (acl_absent client self)
      else None)"

definition acl_run :: "'s transport \<Rightarrow> acl_self \<Rightarrow> 's \<Rightarrow> outcome \<times> 's mstate" where
  "acl_run client self =
     run ''acl'' (acl_get_acl client self) (acl_getattr client self) (state self)"

subsection \<open>incus_network_zone\<close>

record zone_self = self_base +
  zone_name :: string
  zone_project :: string

definition zone_get_network_zone :: "'s transport \<Rightarrow> zone_self \<Rightarrow> ('s, response) action" where
  "zone_get_network_zone client self =
     query_raw client (get_request (''/1.0/network-zones/'' @ zone_name self))"

definition zone_present :: "'s transport \<Rightarrow> zone_self \<Rightarrow> ('s, response option) action" where
  "zone_present client self st =
     (case map_of (diff_before st) ''state'' of
        None \<Rightarrow> (Inl (KeyError ''state''), st)
      | Some bs \<Rightarrow>
     let method = (if py_eq bs (PStr ''present'') then ''PATCH'' else ''POST'');
         payload = PDict [(''name'', PStr (zone_name self)),
                          (''description'', description self),
                          (''config'', config self)]
     in if method = ''POST'' then
          unless_check (check_mode self) client
            (write_request method ''/1.0/network-zones'' (Some payload)) st
        else if method = ''PATCH'' then
          unless_check (check_mode self) client
            (write_request method (''/1.0/network-zones/'' @ zone_name self) (Some payload)) st
        else (Inl (PyException ''invalid state''), st))"

definition zone_absent :: "'s transport \<Rightarrow> zone_self \<Rightarrow> ('s, response option) action" where
  "zone_absent client self st =
     (case map_of (diff_before st) ''state'' of
        None \<Rightarrow> (Inl (KeyError ''state''), st)
      | Some bs \<Rightarrow>
        if py_eq bs (PStr ''absent'') then (Inr None, st)
        else unless_check (check_mode self) client
               (write_request ''DELETE'' (''/1.0/network-zones/'' @ zone_name self) None) st)"

definition zone_getattr ::
  "'s transport \<Rightarrow> zone_self \<Rightarrow> string \<Rightarrow> ('s, response option) action option" where
  "zone_getattr client self m =
     (if m = ''_present'' then Some (zone_present client self)
      else if m = ''_absent'' then Some (zone_absent client self)
      else None)"

definition zone_run :: "'s transport \<Rightarrow> zone_self \<Rightarrow> 's \<Rightarrow> outcome \<times> 's mstate" where
  "zone_run client self =
     run ''zone'' (zone_get_network_zone client self) (zone_getattr client self) (state self)"

subsection \<open>incus_network_peer\<close>

text \<open>
  \<open>_present\<close> appends to \<open>self.actions\<close> after the write or, under check mode, after
  \<open>res = None\<close>; \<open>_absent\<close> appends only when the \<open>return\<close> of the write was not taken.
\<close>

record peer_self = self_base +
  peer_name :: string
  peer_network :: string
  peer_target_network :: pyval
  peer_type :: pyval
  peer_target_integration :: pyval
  peer_target_project :: pyval
  peer_project :: string

definition peer_get_peer :: "'s transport \<Rightarrow> peer_self \<Rightarrow> ('s, response) action" where
  "peer_get_peer client self =
     query_raw client
       (get_request (''/1.0/networks/'' @ peer_network self @ ''/peers/'' @ peer_name self))"

definition peer_payload :: "peer_self \<Rightarrow> dict" where
  "peer_payload self =
     (let p0 = [(''name'', PStr (peer_name self)),
                (''config'', config self),
                (''description'', description self)];
          p1 = (if py_truthy (peer_target_network self) then
                  (let q = dict_set ''target_network'' (peer_target_network self) p0 in
                   if py_truthy (peer_target_project self)
                   then dict_set ''target_project'' (peer_target_project self) q else q)
                else p0);
          p2 = (if py_truthy (peer_target_integration self)
                then dict_set ''target_integration'' (peer_target_integration self) p1 else p1)
      in if py_truthy (peer_type self) then dict_set ''type'' (peer_type self) p2 else p2)"

definition peer_present :: "'s transport \<Rightarrow> peer_self \<Rightarrow> ('s, response option) action" where
  "peer_present client self st =
     (case map_of (diff_before st) ''state'' of
        None \<Rightarrow> (Inl (KeyError ''state''), st)
      | Some bs \<Rightarrow>
     let method = (if py_eq bs (PStr ''present'') then ''PATCH'' else ''POST'');
         payload = PDict (peer_payload self);
         url = (if method = ''POST''
                then ''/1.0/networks/'' @ peer_network self @ ''/peers''
                else ''/1.0/networks/'' @ peer_network self @ ''/peers/'' @ peer_name self)
     in (case (if \<not> check_mode self then
                 (case query_raw client (write_request method url (Some payload)) st of
                    (Inl e, st') \<Rightarrow> (Inl e, st')
                  | (Inr r, st') \<Rightarrow> (Inr (Some r), st'))
               else (Inr None, st)) of
           (Inl e, st') \<Rightarrow> (Inl e, st')
         | (Inr res, st') \<Rightarrow>
             (Inr res,
              st'\<lparr>actions := actions st' @ [if method = ''POST'' then ''create'' else ''update'']\<rparr>)))"

definition peer_absent :: "'s transport \<Rightarrow> peer_self \<Rightarrow> ('s, response option) action" where
  "peer_absent client self st =
     (case map_of (diff_before st) ''state'' of
        None \<Rightarrow> (Inl (KeyError ''state''), st)
      | Some bs \<Rightarrow>
        if py_eq bs (PStr ''absent'') then (Inr None, st)
        else
          let url = ''/1.0/networks/'' @ peer_network self @ ''/peers/'' @ peer_name self in
          if \<not> check_mode self then
            (case query_raw client (write_request ''DELETE'' url None) st of
               (Inl e, st') \<Rightarrow> (Inl e, st')
             | (Inr r, st') \<Rightarrow> (Inr (Some r), st'))
          else (Inr None, st\<lparr>actions := actions st @ [''delete'']\<rparr>))"

definition peer_getattr ::
  "'s transport \<Rightarrow> peer_self \<Rightarrow> string \<Rightarrow> ('s, response option) action option" where
  "peer_getattr client self m =
     (if m = ''_present'' then Some (peer_present client self)
      else if m = ''_absent'' then Some (peer_absent client self)
      else None)"

definition peer_run :: "'s transport \<Rightarrow> peer_self \<Rightarrow> 's \<Rightarrow> outcome \<times> 's mstate" where
  "peer_run client self =
     run ''peer'' (peer_get_peer client self) (peer_getattr client self) (state self)"

subsection \<open>incus_network_forward\<close>

text \<open>
  \<open>ports\<close> is \<open>None\<close> or a list (\<open>type='list', elements='dict'\<close>); the payload takes
  \<open>self.config or {}\<close> and \<open>self.ports or []\<close>.
\<close>

record forward_self = self_base +
  forward_network :: string
  forward_ports :: pyval
  forward_listen_address :: string
  forward_project :: string

definition forward_get_network_forwards ::
  "'s transport \<Rightarrow> forward_self \<Rightarrow> ('s, response) action" where
  "forward_get_network_forwards client self =
     query_raw client (get_request (''/1.0/networks/'' @ forward_network self @ ''/forwards''))"

definition forward_payload :: "forward_self \<Rightarrow> dict" where
  "forward_payload self =
     [(''listen_address'', PStr (forward_listen_address self)),
      (''description'', description self),
      (''config'', py_or (config self) (PDict [])),
      (''ports'', py_or (forward_ports self) (PList []))]"

definition forward_present ::
  "'s transport \<Rightarrow> forward_self \<Rightarrow> ('s, response option) action" where
  "forward_present client self st =
     (case map_of (diff_before st) ''state'' of
        None \<Rightarrow> (Inl (KeyError ''state''), st)
      | Some bs \<Rightarrow>
     let method = (if py_eq bs (PStr ''present'') then ''PATCH'' else ''POST'');
         payload = PDict (forward_payload self)
     in if method = ''POST'' then
          unless_check (check_mode self) client
            (write_request method (''/1.0/network/'' @ forward_network self @ ''/forwards'')
               (Some payload)) st
        else if method = ''PATCH'' then
          unless_check (check_mode self) client
            (write_request method
               (''/1.0/network/'' @ forward_network self @ ''/forwards/'' @
                forward_listen_address self)
               (Some payload)) st
        else (Inl (PyException ''invalid state''), st))"

definition forward_absent ::
  "'s transport \<Rightarrow> forward_self \<Rightarrow> ('s, response option) action" where
  "forward_absent client self st =
     (case map_of (diff_before st) ''state'' of
        None \<Rightarrow> (Inl (KeyError ''state''), st)
      | Some bs \<Rightarrow>
        if py_eq bs (PStr ''absent'') then (Inr None, st)
        else unless_check (check_mode self) client
               (write_request ''DELETE''
                  (''/1.0/network/'' @ forward_network self @ ''/forwards/'' @
                   forward_listen_address self) None) st)"

definition forward_getattr ::
  "'s transport \<Rightarrow> forward_self \<Rightarrow> string \<Rightarrow> ('s, response option) action option" where
  "forward_getattr client self m =
     (if m = ''_present'' then Some (forward_present client self)
      else if m = ''_absent'' then Some (forward_absent client self)
      else None)"

definition forward_run :: "'s transport \<Rightarrow> forward_self \<Rightarrow> 's \<Rightarrow> outcome \<times> 's mstate" where
  "forward_run client self =
     run ''forward'' (forward_get_network_forwards client self) (forward_getattr client self)
       (state self)"

subsection \<open>incus_network_load_balancer\<close>

text \<open>
  \<open>__init__\<close> stores \<open>params['config'] or {}\<close>, \<open>params['backends'] or []\<close> and
  \<open>params['ports'] or []\<close>: the fields below hold the stored values, \<open>ports\<close> a list
  of dictionaries (\<open>elements='dict'\<close>).

  The payload's ports are the comprehension
  \<open>[{**port, 'listen_port': str(port['listen_port'])} for port in self.ports]\<close>;
  \<open>port['listen_port']\<close> raises \<open>KeyError\<close> on a dictionary without that key.
\<close>

record lb_self = self_base +
  lb_network :: string
  lb_listen_address :: string
  lb_backends :: pyval
  lb_ports :: "dict list"

definition lb_get_lb :: "'s transport \<Rightarrow> lb_self \<Rightarrow> ('s, response) action" where
  "lb_get_lb client self =
     query_raw client
       (get_request (''/1.0/networks/'' @ lb_network self @ ''/load-balancers/'' @
                     lb_listen_address self))"

fun lb_port_list :: "(pyval \<Rightarrow> string) \<Rightarrow> dict list \<Rightarrow> exn + pyval list" where
  "lb_port_list crepr [] = Inr []"
| "lb_port_list crepr (port # ports) =
     (case map_of port ''listen_port'' of
        None \<Rightarrow> Inl (KeyError ''listen_port'')
      | Some v \<Rightarrow>
          (case lb_port_list crepr ports of
             Inl e \<Rightarrow> Inl e
           | Inr rest \<Rightarrow>
               Inr (PDict (dict_set ''listen_port'' (PStr (py_str crepr v)) port) # rest)))"

definition lb_payload :: "(pyval \<Rightarrow> string) \<Rightarrow> lb_self \<Rightarrow> exn + dict" where
  "lb_payload crepr self =
     (case lb_port_list crepr (lb_ports self) of
        Inl e \<Rightarrow> Inl e
      | Inr ports \<Rightarrow>
          Inr [(''listen_address'', PStr (lb_listen_address self)),
               (''description'', description self),
               (''network'', PStr (lb_network self)),
               (''config'', config self),
               (''backends'', lb_backends self),
               (''ports'', PList ports)])"

definition lb_present ::
  "(pyval \<Rightarrow> string) \<Rightarrow> 's transport \<Rightarrow> lb_self \<Rightarrow> ('s, response option) action" where
  "lb_present crepr client self st =
     (case map_of (diff_before st) ''state'' of
        None \<Rightarrow> (Inl (KeyError ''state''), st)
      | Some bs \<Rightarrow>
     let method = (if py_eq bs (PStr ''present'') then ''PATCH'' else ''POST'') in
     (case lb_payload crepr self of
        Inl e \<Rightarrow> (Inl e, st)
      | Inr entries \<Rightarrow>
        if method = ''POST'' then
          unless_check (check_mode self) client
            (write_request method (''/1.0/networks/'' @ lb_network self @ ''/load-balancers'')
               (Some (PDict entries))) st
        else if method = ''PATCH'' then
          unless_check (check_mode self) client
            (write_request method
               (''/1.0/networks/'' @ lb_network self @ ''/load-balancers/'' @
                lb_listen_address self)
               (Some (PDict entries))) st
        else (Inl (PyException ''invalid state''), st)))"

definition lb_absent :: "'s transport \<Rightarrow> lb_self \<Rightarrow> ('s, response option) action" where
  "lb_absent client self st =
     (case map_of (diff_before st) ''state'' of
        None \<Rightarrow> (Inl (KeyError ''state''), st)
      | Some bs \<Rightarrow>
        if py_eq bs (PStr ''absent'') then (Inr None, st)
        else unless_check (check_mode self) client
               (write_request ''DELETE''
                  (''/1.0/networks/'' @ lb_network self @ ''/load-balancers/'' @
                   lb_listen_address self) None) st)"

definition lb_getattr ::
  "(pyval \<Rightarrow> string) \<Rightarrow> 's transport \<Rightarrow> lb_self \<Rightarrow> string \<Rightarrow>
   ('s, response option) action option" where
  "lb_getattr crepr client self m =
     (if m = ''_present'' then Some (lb_present crepr client self)
      else if m = ''_absent'' then Some (lb_absent client self)
      else None)"

definition lb_run ::
  "(pyval \<Rightarrow> string) \<Rightarrow> 's transport \<Rightarrow> lb_self \<Rightarrow> 's \<Rightarrow> outcome \<times> 's mstate" where
  "lb_run crepr client self =
     run ''loadbalancer'' (lb_get_lb client self) (lb_getattr crepr client self) (state self)"

section \<open>A scripted transport\<close>

text \<open>
  For concrete runs: the remote system is a script, the list of what the next calls
  return or raise; a call past the end of the script raises.
\<close>

definition scripted :: "(string + response) list transport" where
  "scripted rq s = (case s of [] \<Rightarrow> (Inl ''script exhausted'', []) | r # rs \<Rightarrow> (r, rs))"

definition ok_resp :: "pyval \<Rightarrow> string + response" where
  "ok_resp md = Inr \<lparr>status_code = 200, error_code = 0, metadata = md\<rparr>"

definition missing_resp :: "string + response" where
  "missing_resp = Inr \<lparr>status_code = 0, error_code = 404, metadata = PNone\<rparr>"

text \<open>
  A read-only remote system: a table from URL to metadata that answers \<open>GET\<close> with
  status 200 or error 404 and refuses every write.
\<close>

definition frozen :: "(string \<times> pyval) list transport" where
  "frozen rq s =
     (if meth rq = ''GET'' then
        (case map_of s (url rq) of None \<Rightarrow> (missing_resp, s) | Some md \<Rightarrow> (ok_resp md, s))
      else (Inl ''remote is read-only'', s))"

section \<open>Invocations\<close>

text \<open>
  Each module's \<open>main()\<close> builds its class from the validated parameters and calls
  \<open>run()\<close>. An invocation is one of the five modules with its parameters.
\<close>

datatype invocation =
    Acl acl_self
  | Zone zone_self
  | Peer peer_self
  | Forward forward_self
  | LoadBalancer lb_self

fun invoke ::
  "(pyval \<Rightarrow> string) \<Rightarrow> 's transport \<Rightarrow> invocation \<Rightarrow> 's \<Rightarrow> outcome \<times> 's mstate" where
  "invoke crepr client (Acl self) = acl_run client self"
| "invoke crepr client (Zone self) = zone_run client self"
| "invoke crepr client (Peer self) = peer_run client self"
| "invoke crepr client (Forward self) = forward_run client self"
| "invoke crepr client (LoadBalancer self) = lb_run crepr client self"

fun desired :: "invocation \<Rightarrow> string" where
  "desired (Acl self) = state self"
| "desired (Zone self) = state self"
| "desired (Peer self) = state self"
| "desired (Forward self) = state self"
| "desired (LoadBalancer self) = state self"

fun dry_run :: "invocation \<Rightarrow> bool" where
  "dry_run (Acl self) = check_mode self"
| "dry_run (Zone self) = check_mode self"
| "dry_run (Peer self) = check_mode self"
| "dry_run (Forward self) = check_mode self"
| "dry_run (LoadBalancer self) = check_mode self"

fun result_key :: "invocation \<Rightarrow> string" where
  "result_key (Acl self) = ''acl''"
| "result_key (Zone self) = ''zone''"
| "result_key (Peer self) = ''peer''"
| "result_key (Forward self) = ''forward''"
| "result_key (LoadBalancer self) = ''loadbalancer''"

section \<open>What an action may do\<close>

text \<open>
  The postcondition shared by every \<open>_present\<close> and \<open>_absent\<close>: \<open>self.diff\<close> is left
  alone, and either nothing was sent (and no client exception raised), or, outside
  check mode, exactly one write was sent, whose failure is the action's failure.
\<close>

definition act_post ::
  "bool \<Rightarrow> 's transport \<Rightarrow> 's mstate \<Rightarrow> exn + response option \<Rightarrow> 's mstate \<Rightarrow> bool" where
  "act_post chk client st x st' =
     (diff_before st' = diff_before st \<and> diff_after st' = diff_after st \<and>
      ((remote st' = remote st \<and> calls st' = calls st \<and>
        (\<forall>m. x \<noteq> Inl (IncusClientException m))) \<or>
       (\<not> chk \<and>
        (\<exists>rq. is_write rq \<and>
           remote st' = snd (client rq (remote st)) \<and>
           calls st' = calls st @ [(rq, fst (client rq (remote st)))] \<and>
           (\<forall>m. fst (client rq (remote st)) = Inl m \<longrightarrow> x = Inl (IncusClientException m)) \<and>
           (\<forall>r. fst (client rq (remote st)) = Inr r \<longrightarrow> (\<exists>v. x = Inr v))))))"

text \<open>
  Every method that \<open>getattr\<close> can hand to \<open>run\<close> meets that postcondition, and sends
  nothing under check mode, nor when \<open>_absent\<close> finds the \<open>before\<close> state absent: then
  it returns at once.
\<close>

definition silent :: "bool \<Rightarrow> string \<Rightarrow> dict \<Rightarrow> bool" where
  "silent chk m d = (chk \<or> (m = ''_absent'' \<and> map_of d ''state'' = Some (PStr ''absent'')))"

definition methods_ok ::
  "bool \<Rightarrow> 's transport \<Rightarrow> (string \<Rightarrow> ('s, response option) action option) \<Rightarrow> bool" where
  "methods_ok chk client lookup =
     ((\<forall>m act st x st'. lookup m = Some act \<longrightarrow> act st = (x, st') \<longrightarrow>
         act_post (silent chk m (diff_before st)) client st x st') \<and>
      (\<exists>act. lookup ''_absent'' = Some act \<and>
         (\<forall>st. map_of (diff_before st) ''state'' = Some (PStr ''absent'') \<longrightarrow>
               act st = (Inr None, st))))"

section \<open>Concrete inputs\<close>

definition no_repr :: "pyval \<Rightarrow> string" where
  "no_repr v = []"

definition acl_demo :: acl_self where
  "acl_demo = \<lparr>state = ''present'', check_mode = False, description = PStr ''web'',
      config = PDict [], acl_name = ''acl1'', acl_project = ''default'',
      acl_ingress = PList [], acl_egress = PList []\<rparr>"

definition acl_meta :: pyval where
  "acl_meta = PDict [(''name'', PStr ''acl1''), (''description'', PStr ''web'')]"

definition acl_dry :: acl_self where
  "acl_dry = acl_demo\<lparr>check_mode := True\<rparr>"

definition acl_gone :: acl_self where
  "acl_gone = acl_demo\<lparr>state := ''absent''\<rparr>"

definition acl_table :: "(string \<times> pyval) list" where
  "acl_table = [(''/1.0/network-acls/acl1'', acl_meta)]"

definition peer_dry :: peer_self where
  "peer_dry = \<lparr>state = ''present'', check_mode = True, description = PNone,
      config = PNone, peer_name = ''peer1'', peer_network = ''net0'',
      peer_target_network = PStr ''net1'', peer_type = PNone,
      peer_target_integration = PNone, peer_target_project = PNone,
      peer_project = ''default''\<rparr>"

definition peer_seen :: "string \<Rightarrow> (string \<times> pyval) list mstate" where
  "peer_seen bs = \<lparr>remote = [], calls = [],
      diff_before = [(''peer'', PNone), (''state'', PStr bs)], diff_after = [],
      actions = []\<rparr>"

definition lb_demo :: lb_self where
  "lb_demo = \<lparr>state = ''present'', check_mode = False, description = PStr ''web'',
      config = PDict [], lb_network = ''net0'', lb_listen_address = ''192.0.2.1'',
      lb_backends = PList [],
      lb_ports = [[(''protocol'', PStr ''tcp''), (''listen_port'', PInt 80),
                   (''target_backend'', PList [PStr ''b1''])],
                  [(''listen_port'', PStr ''443'')]]\<rparr>"

definition lb_bad :: lb_self where
  "lb_bad = lb_demo\<lparr>check_mode := True, lb_ports := [[(''protocol'', PStr ''tcp'')]]\<rparr>"

definition forward_demo :: forward_self where
  "forward_demo = \<lparr>state = ''present'', check_mode = False, description = PStr ''web'',
      config = PNone, forward_network = ''net0'',
      forward_ports = PList [PDict [(''protocol'', PStr ''tcp''), (''listen_port'', PInt 80)]],
      forward_listen_address = ''192.0.2.1'', forward_project = ''default''\<rparr>"

definition seen :: "string \<Rightarrow> string \<Rightarrow> (string + response) list mstate" where
  "seen key bs = \<lparr>remote = [ok_resp PNone], calls = [],
      diff_before = [(key, PNone), (''state'', PStr bs)], diff_after = [], actions = []\<rparr>"

section \<open>Basic facts\<close>

lemma py_eq_refl: "py_eq v v"
proof (induction v)
  case (PList xs) then show ?case by (simp add: list_all2_same)
next
  case (PDict d)
  have "py_eq (snd e) (snd e)" if "e \<in> set d" for e
    using PDict that by (cases e) (auto intro: snds.intros)
  then show ?case by (auto simp: list_all_iff list_ex_iff)
qed simp_all

lemma map_of_dict_set_same: "map_of (dict_set k v d) k = Some v"
  by (induction d) auto

lemma map_of_dict_set_other: "k' \<noteq> k \<Longrightarrow> map_of (dict_set k v d) k' = map_of d k'"
  by (induction d) auto

lemma keys_dict_set: "map_of d k = Some w \<Longrightarrow> map fst (dict_set k v d) = map fst d"
  by (induction d) (auto split: if_splits)

lemma unless_check_post:
  "unless_check chk client rq st = (x, st') \<Longrightarrow> is_write rq \<Longrightarrow> act_post chk client st x st'"
  by (auto simp: act_post_def unless_check_def query_raw_def split: prod.splits sum.splits if_splits)

lemma is_write_simps [simp]:
  "is_write (write_request ''POST'' u p)"
  "is_write (write_request ''PATCH'' u p)"
  "is_write (write_request ''DELETE'' u p)"
  "\<not> is_write (get_request u)"
  by (simp_all add: is_write_def write_request_def get_request_def)

lemma act_post_skip: "(\<And>m. x \<noteq> Inl (IncusClientException m)) \<Longrightarrow> act_post chk client st x st"
  by (simp add: act_post_def)

lemma act_post_actions:
  "act_post chk client st x st' \<Longrightarrow> act_post chk client st x (st'\<lparr>actions := a\<rparr>)"
  by (simp add: act_post_def)

lemma acl_present_post:
  "acl_present client self st = (x, st') \<Longrightarrow> act_post (check_mode self) client st x st'"
  unfolding acl_present_def Let_def
  by (auto split: option.splits if_splits elim: unless_check_post intro: act_post_skip)

lemma acl_absent_post:
  assumes "acl_absent client self st = (x, st')"
  shows "act_post (silent (check_mode self) ''_absent'' (diff_before st)) client st x st'"
proof (cases "map_of (diff_before st) ''state'' = Some (PStr ''absent'')")
  case True
  then show ?thesis using assms by (auto simp: acl_absent_def intro: act_post_skip)
next
  case False
  then have "silent (check_mode self) ''_absent'' (diff_before st) = check_mode self"
    by (simp add: silent_def)
  then show ?thesis using assms unfolding acl_absent_def Let_def
    by (auto split: option.splits if_splits elim: unless_check_post intro: act_post_skip)
qed

lemma zone_present_post:
  "zone_present client self st = (x, st') \<Longrightarrow> act_post (check_mode self) client st x st'"
  unfolding zone_present_def Let_def
  by (auto split: option.splits if_splits elim: unless_check_post intro: act_post_skip)

lemma zone_absent_post:
  assumes "zone_absent client self st = (x, st')"
  shows "act_post (silent (check_mode self) ''_absent'' (diff_before st)) client st x st'"
proof (cases "map_of (diff_before st) ''state'' = Some (PStr ''absent'')")
  case True
  then show ?thesis using assms by (auto simp: zone_absent_def intro: act_post_skip)
next
  case False
  then have "silent (check_mode self) ''_absent'' (diff_before st) = check_mode self"
    by (simp add: silent_def)
  then show ?thesis using assms unfolding zone_absent_def Let_def
    by (auto split: option.splits if_splits elim: unless_check_post intro: act_post_skip)
qed

lemma forward_present_post:
  "forward_present client self st = (x, st') \<Longrightarrow> act_post (check_mode self) client st x st'"
  unfolding forward_present_def Let_def
  by (auto split: option.splits if_splits elim: unless_check_post intro: act_post_skip)

lemma forward_absent_post:
  assumes "forward_absent client self st = (x, st')"
  shows "act_post (silent (check_mode self) ''_absent'' (diff_before st)) client st x st'"
proof (cases "map_of (diff_before st) ''state'' = Some (PStr ''absent'')")
  case True
  then show ?thesis using assms by (auto simp: forward_absent_def intro: act_post_skip)
next
  case False
  then have "silent (check_mode self) ''_absent'' (diff_before st) = check_mode self"
    by (simp add: silent_def)
  then show ?thesis using assms unfolding forward_absent_def Let_def
    by (auto split: option.splits if_splits elim: unless_check_post intro: act_post_skip)
qed

lemma lb_port_list_exn: "lb_port_list crepr ps = Inl e \<Longrightarrow> e = KeyError ''listen_port''"
  by (induction ps) (auto split: option.splits sum.splits)

lemma lb_present_post:
  "lb_present crepr client self st = (x, st') \<Longrightarrow> act_post (check_mode self) client st x st'"
  unfolding lb_present_def Let_def lb_payload_def
  by (auto split: option.splits sum.splits if_splits dest: lb_port_list_exn
           elim: unless_check_post intro: act_post_skip)

lemma lb_absent_post:
  assumes "lb_absent client self st = (x, st')"
  shows "act_post (silent (check_mode self) ''_absent'' (diff_before st)) client st x st'"
proof (cases "map_of (diff_before st) ''state'' = Some (PStr ''absent'')")
  case True
  then show ?thesis using assms by (auto simp: lb_absent_def intro: act_post_skip)
next
  case False
  then have "silent (check_mode self) ''_absent'' (diff_before st) = check_mode self"
    by (simp add: silent_def)
  then show ?thesis using assms unfolding lb_absent_def Let_def
    by (auto split: option.splits if_splits elim: unless_check_post intro: act_post_skip)
qed

lemma unless_check_unfold:
  "\<not> chk \<Longrightarrow>
   (case query_raw client rq st of (Inl e, st') \<Rightarrow> (Inl e, st') | (Inr r, st') \<Rightarrow> (Inr (Some r), st'))
   = unless_check chk client rq st"
  by (simp add: unless_check_def)

lemma peer_present_post:
  assumes "peer_present client self st = (x, st')"
  shows "act_post (check_mode self) client st x st'"
proof (cases "map_of (diff_before st) ''state''")
  case None
  then show ?thesis using assms by (auto simp: peer_present_def act_post_skip)
next
  case (Some bs)
  show ?thesis
  proof (cases "check_mode self")
    case True
    then show ?thesis using Some assms
      by (auto simp: peer_present_def Let_def act_post_def)
  next
    case False
    define verb where "verb = (if py_eq bs (PStr ''present'') then ''PATCH'' else ''POST'')"
    define rq where "rq = write_request verb
      (if verb = ''POST''
                then ''/1.0/networks/'' @ peer_network self @ ''/peers''
                else ''/1.0/networks/'' @ peer_network self @ ''/peers/'' @ peer_name self)
      (Some (PDict (peer_payload self)))"
    have w: "is_write rq" by (simp add: rq_def verb_def)
    obtain y st1 where u: "unless_check (check_mode self) client rq st = (y, st1)"
      by (cases "unless_check (check_mode self) client rq st")
    have p: "act_post (check_mode self) client st y st1"
      using unless_check_post [OF u w] .
    have "peer_present client self st =
      (case y of Inl e \<Rightarrow> (Inl e, st1)
       | Inr res \<Rightarrow> (Inr res, st1\<lparr>actions := actions st1 @
           [if verb = ''POST'' then ''create'' else ''update'']\<rparr>))"
      using Some False u
      by (simp add: peer_present_def Let_def unless_check_unfold rq_def verb_def)
    then show ?thesis using p assms by (auto split: sum.splits intro: act_post_actions)
  qed
qed

lemma peer_absent_post:
  assumes "peer_absent client self st = (x, st')"
  shows "act_post (silent (check_mode self) ''_absent'' (diff_before st)) client st x st'"
proof (cases "map_of (diff_before st) ''state'' = Some (PStr ''absent'')")
  case True
  then show ?thesis using assms by (auto simp: peer_absent_def intro: act_post_skip)
next
  case False
  then have q: "silent (check_mode self) ''_absent'' (diff_before st) = check_mode self"
    by (simp add: silent_def)
  show ?thesis
  proof (cases "check_mode self")
    case True
    then show ?thesis using assms q
      by (auto simp: peer_absent_def Let_def act_post_def split: option.splits if_splits)
  next
    case False
    then show ?thesis using assms q
      by (auto simp: peer_absent_def Let_def unless_check_unfold split: option.splits if_splits
               elim: unless_check_post intro: act_post_skip)
  qed
qed

lemma lb_port_list_missing:
  "port \<in> set ports \<Longrightarrow> map_of port ''listen_port'' = None \<Longrightarrow>
   lb_port_list crepr ports = Inl (KeyError ''listen_port'')"
  by (induction ports) (auto split: option.splits sum.splits dest: lb_port_list_exn)

lemma lb_port_list_coerces:
  "lb_port_list crepr ports = Inr out \<Longrightarrow>
   length out = length ports \<and>
   (\<forall>i < length ports. \<exists>v d.
      map_of (ports ! i) ''listen_port'' = Some v \<and> out ! i = PDict d \<and>
      map_of d ''listen_port'' = Some (PStr (py_str crepr v)) \<and>
      (\<forall>k. k \<noteq> ''listen_port'' \<longrightarrow> map_of d k = map_of (ports ! i) k) \<and>
      map fst d = map fst (ports ! i))"
proof (induction ports arbitrary: out)
  case Nil
  then show ?case by simp
next
  case (Cons port ports)
  from Cons.prems obtain v rest where
    v: "map_of port ''listen_port'' = Some v"
    and r: "lb_port_list crepr ports = Inr rest"
    and o: "out = PDict (dict_set ''listen_port'' (PStr (py_str crepr v)) port) # rest"
    by (auto split: option.splits sum.splits)
  have ih: "length rest = length ports \<and>
   (\<forall>i < length ports. \<exists>v d.
      map_of (ports ! i) ''listen_port'' = Some v \<and> rest ! i = PDict d \<and>
      map_of d ''listen_port'' = Some (PStr (py_str crepr v)) \<and>
      (\<forall>k. k \<noteq> ''listen_port'' \<longrightarrow> map_of d k = map_of (ports ! i) k) \<and>
      map fst d = map fst (ports ! i))"
    using Cons.IH [OF r] .
  show ?case
  proof (intro conjI allI impI)
    show "length out = length (port # ports)" using o ih by simp
  next
    fix i assume "i < length (port # ports)"
    show "\<exists>v d. map_of ((port # ports) ! i) ''listen_port'' = Some v \<and> out ! i = PDict d \<and>
      map_of d ''listen_port'' = Some (PStr (py_str crepr v)) \<and>
      (\<forall>k. k \<noteq> ''listen_port'' \<longrightarrow> map_of d k = map_of ((port # ports) ! i) k) \<and>
      map fst d = map fst ((port # ports) ! i)"
    proof (cases i)
      case 0
      then show ?thesis using v o
        by (auto simp: map_of_dict_set_same map_of_dict_set_other keys_dict_set)
    next
      case (Suc j)
      then show ?thesis using ih o \<open>i < length (port # ports)\<close> by simp
    qed
  qed
qed

lemma lb_port_list_total:
  "\<forall>port \<in> set ports. map_of port ''listen_port'' \<noteq> None \<Longrightarrow>
   \<exists>out. lb_port_list crepr ports = Inr out"
  by (induction ports) (auto split: option.splits sum.splits)

lemma lb_present_call:
  assumes "calls (snd (lb_present crepr client self st)) \<noteq> calls st"
  shows "\<exists>rq res p out.
           calls (snd (lb_present crepr client self st)) = calls st @ [(rq, res)] \<and>
           is_write rq \<and> payload rq = Some (PDict p) \<and>
           map_of p ''ports'' = Some (PList out) \<and>
           lb_port_list crepr (lb_ports self) = Inr out"
  using assms
  by (auto simp: lb_present_def lb_payload_def unless_check_def query_raw_def Let_def
                 write_request_def is_write_def
           split: option.splits sum.splits prod.splits if_splits)

lemma forward_present_call:
  assumes "calls (snd (forward_present client self st)) \<noteq> calls st"
  shows "\<exists>rq res.
           calls (snd (forward_present client self st)) = calls st @ [(rq, res)] \<and>
           is_write rq \<and> payload rq = Some (PDict (forward_payload self))"
  using assms
  by (auto simp: forward_present_def unless_check_def query_raw_def Let_def
                 write_request_def is_write_def
           split: option.splits sum.splits prod.splits if_splits)

section \<open>The shape of every run\<close>

lemma dispatch_cases:
  "map_of ACTION_DISPATCH tgt = None \<or> map_of ACTION_DISPATCH tgt = Some (PStr ''_present'') \<or>
   map_of ACTION_DISPATCH tgt = Some (PStr ''_absent'')"
  by (simp add: ACTION_DISPATCH_def)

lemma classify_cases:
  "incus_to_module_state r = Inr ''present'' \<or> incus_to_module_state r = Inr ''absent'' \<or>
   incus_to_module_state r = Inl (PyException ''unknown resource state'')"
  by (simp add: incus_to_module_state_def)

lemma run_cases:
  assumes R: "run key (query_raw client g) lookup tgt s = (out, st)"
    and A: "methods_ok chk client lookup"
    and K: "key \<noteq> ''state''"
  obtains
    (fetch_raised) m where "fst (client g s) = Inl m" "calls st = [(g, Inl m)]"
      "out = Fail_json \<lparr>msg = m, fchanged = False, fdiff = \<lparr>before = [], after = []\<rparr>\<rparr>"
  | (unknown_state) r1 where "fst (client g s) = Inr r1" "calls st = [(g, Inr r1)]"
      "incus_to_module_state r1 = Inl (PyException ''unknown resource state'')"
      "out = Uncaught (PyException ''unknown resource state'')"
  | (crashed) r1 bs e where "fst (client g s) = Inr r1" "calls st = [(g, Inr r1)]"
      "incus_to_module_state r1 = Inr bs" "out = Uncaught e"
      "\<not> (tgt = ''absent'' \<and> bs = ''absent'')"
  | (write_raised) r1 bs rq m where "fst (client g s) = Inr r1" "incus_to_module_state r1 = Inr bs"
      "\<not> chk" "\<not> (tgt = ''absent'' \<and> bs = ''absent'')"
      "is_write rq" "fst (client rq (snd (client g s))) = Inl m"
      "calls st = [(g, Inr r1), (rq, Inl m)]"
      "out = Fail_json \<lparr>msg = m, fchanged = False,
          fdiff = \<lparr>before = [(key, metadata r1), (''state'', PStr bs)], after = []\<rparr>\<rparr>"
  | (refetch_raised) r1 bs w s' m where "fst (client g s) = Inr r1" "incus_to_module_state r1 = Inr bs"
      "w = [] \<and> s' = snd (client g s) \<or>
       \<not> chk \<and> \<not> (tgt = ''absent'' \<and> bs = ''absent'') \<and>
         (\<exists>rq resp. is_write rq \<and> w = [(rq, Inr resp)] \<and>
                   client rq (snd (client g s)) = (Inr resp, s'))"
      "fst (client g s') = Inl m"
      "calls st = (g, Inr r1) # w @ [(g, Inl m)]"
      "out = Fail_json \<lparr>msg = m, fchanged = False,
          fdiff = \<lparr>before = [(key, metadata r1), (''state'', PStr bs)], after = []\<rparr>\<rparr>"
  | (unknown_after) r1 bs w s' r2 where "fst (client g s) = Inr r1" "incus_to_module_state r1 = Inr bs"
      "w = [] \<and> s' = snd (client g s) \<or>
       \<not> chk \<and> \<not> (tgt = ''absent'' \<and> bs = ''absent'') \<and>
         (\<exists>rq resp. is_write rq \<and> w = [(rq, Inr resp)] \<and>
                   client rq (snd (client g s)) = (Inr resp, s'))"
      "fst (client g s') = Inr r2"
      "calls st = (g, Inr r1) # w @ [(g, Inr r2)]"
      "incus_to_module_state r2 = Inl (PyException ''unknown resource state'')"
      "out = Uncaught (PyException ''unknown resource state'')"
  | (exit) r1 bs w s' r2 afs where "fst (client g s) = Inr r1" "incus_to_module_state r1 = Inr bs"
      "w = [] \<and> s' = snd (client g s) \<or>
       \<not> chk \<and> \<not> (tgt = ''absent'' \<and> bs = ''absent'') \<and>
         (\<exists>rq resp. is_write rq \<and> w = [(rq, Inr resp)] \<and>
                   client rq (snd (client g s)) = (Inr resp, s'))"
      "fst (client g s') = Inr r2"
      "calls st = (g, Inr r1) # w @ [(g, Inr r2)]"
      "incus_to_module_state r2 = Inr afs"
      "out = Exit_json \<lparr>changed = \<not> py_eq (metadata r1) (metadata r2), old_state = PStr bs,
          rdiff = \<lparr>before = [(key, metadata r1), (''state'', PStr bs)],
                   after = [(key, metadata r2), (''state'', PStr afs)]\<rparr>,
          resource_key = key, resource = metadata r2\<rparr>"
proof -
  note rules = that
  obtain x1 s1 where c1: "client g s = (x1, s1)" by (cases "client g s")
  show thesis
  proof (cases x1)
    case (Inl m)
    then show thesis using R c1
      by (intro rules(1) [of m])
         (auto simp: run_def run_try_def query_raw_def init_state_def self_diff_def)
  next
    case r1: (Inr r1)
    define st2 :: "'a mstate" where
      "st2 = \<lparr>remote = s1, calls = [(g, Inr r1)], diff_before = [(key, metadata r1)],
              diff_after = [], actions = []\<rparr>"
    show thesis
    proof (cases "incus_to_module_state r1")
      case (Inl e)
      then have e: "e = PyException ''unknown resource state''"
        using classify_cases [of r1] by auto
      show thesis using R c1 r1 Inl e
        by (intro rules(2) [of r1])
           (auto simp: run_def run_try_def query_raw_def init_state_def self_diff_def)
    next
      case bs: (Inr bs)
      define st3 :: "'a mstate" where
        "st3 = \<lparr>remote = s1, calls = [(g, Inr r1)],
                diff_before = [(key, metadata r1), (''state'', PStr bs)],
                diff_after = [], actions = []\<rparr>"
      define rest where "rest = (\<lambda>act :: 'a mstate \<Rightarrow> (exn + response option) \<times> 'a mstate.
        (case act st3 of
        (Inl e, st4) \<Rightarrow> (Inl e, st4)
      | (Inr _, st4) \<Rightarrow>
     (case query_raw client g st4 of
        (Inl e, st5) \<Rightarrow> (Inl e, st5)
      | (Inr current', st5) \<Rightarrow>
     let st6 = st5\<lparr>diff_after := dict_set key (metadata current') (diff_after st5)\<rparr> in
     (case incus_to_module_state current' of
        Inl e \<Rightarrow> (Inl e, st6)
      | Inr afs \<Rightarrow>
     let st7 = st6\<lparr>diff_after := dict_set ''state'' (PStr afs) (diff_after st6)\<rparr> in
     (case map_of (diff_before st7) key of
        None \<Rightarrow> (Inl (KeyError key), st7)
      | Some b \<Rightarrow>
     (case map_of (diff_after st7) key of
        None \<Rightarrow> (Inl (KeyError key), st7)
      | Some a \<Rightarrow>
     (case map_of (diff_before st7) ''state'' of
        None \<Rightarrow> (Inl (KeyError ''state''), st7)
      | Some os \<Rightarrow>
        (Inr \<lparr>changed = \<not> py_eq b a, old_state = os, rdiff = self_diff st7,
              resource_key = key, resource = a\<rparr>, st7))))))))"
      have T: "run_try key (query_raw client g) lookup tgt (init_state s) =
        (case map_of ACTION_DISPATCH tgt of
        None \<Rightarrow> (Inl (KeyError tgt), st3)
      | Some (PStr mname) \<Rightarrow>
         (case lookup mname of
            None \<Rightarrow> (Inl (AttributeError mname), st3)
          | Some act \<Rightarrow> rest act)
      | Some _ \<Rightarrow> (Inl (AttributeError ''attribute name must be string''), st3))"
        using c1 r1 bs K
        by (simp add: run_try_def query_raw_def init_state_def st3_def rest_def Let_def
              split: option.split pyval.split)
      have crashed: thesis if "run_try key (query_raw client g) lookup tgt (init_state s) = (Inl e, st3)"
        "\<And>m. e \<noteq> IncusClientException m" "\<not> (tgt = ''absent'' \<and> bs = ''absent'')" for e
        using that R c1 r1 bs
        by (intro rules(3) [of r1 bs e]) (cases e; auto simp: run_def st3_def)+
      have fin: thesis if "lookup mname = Some act" and
        RT: "run_try key (query_raw client g) lookup tgt (init_state s) = rest act" and
        ab: "tgt = ''absent'' \<Longrightarrow> mname = ''_absent''" for mname act
      proof -
        obtain x st4 where a: "act st3 = (x, st4)" by (cases "act st3")
        define q where "q = silent chk mname (diff_before st3)"
        have post: "act_post q client st3 x st4"
          using A that(1) a unfolding methods_ok_def q_def by blast
        have nq: "\<not> chk \<and> \<not> (tgt = ''absent'' \<and> bs = ''absent'')" if "\<not> q"
          using that ab K by (auto simp: q_def silent_def st3_def)
        have ret: "x = Inr None" if "tgt = ''absent''" "bs = ''absent''"
        proof -
          obtain act0 where "lookup ''_absent'' = Some act0"
            "\<forall>st. map_of (diff_before st) ''state'' = Some (PStr ''absent'') \<longrightarrow>
               act0 st = (Inr None, st)"
            using A unfolding methods_ok_def by blast
          moreover have "map_of (diff_before st3) ''state'' = Some (PStr ''absent'')"
            using that K by (simp add: st3_def)
          ultimately show ?thesis using ab [OF that(1)] \<open>lookup mname = Some act\<close> a by auto
        qed
        have d4: "diff_before st4 = [(key, metadata r1), (''state'', PStr bs)]" "diff_after st4 = []"
          using post by (simp_all add: act_post_def st3_def)
        show thesis
        proof (cases x)
          case (Inl e)
          then have rt: "run_try key (query_raw client g) lookup tgt (init_state s) = (Inl e, st4)"
            using RT a by (simp add: rest_def)
          from post consider
            (quiet) "remote st4 = s1" "calls st4 = [(g, Inr r1)]" "\<And>m. e \<noteq> IncusClientException m"
          | (wrote) rq where "\<not> q" "is_write rq" "calls st4 = [(g, Inr r1), (rq, fst (client rq s1))]"
              "\<And>m. fst (client rq s1) = Inl m \<Longrightarrow> e = IncusClientException m"
              "\<And>r. fst (client rq s1) = Inr r \<Longrightarrow> False"
            using Inl by (auto simp: act_post_def st3_def)
          then show thesis
          proof cases
            case quiet
            have "\<not> (tgt = ''absent'' \<and> bs = ''absent'')" using ret Inl by auto
            then show thesis using R rt quiet c1 r1 bs
              by (intro rules(3) [of r1 bs e]) (cases e; auto simp: run_def)+
          next
            case (wrote rq)
            obtain m where m: "fst (client rq s1) = Inl m"
              using wrote(5) by (cases "fst (client rq s1)") auto
            have e: "e = IncusClientException m" using wrote(4) m by simp
            show thesis using R rt e m wrote(2,3) nq [OF wrote(1)] c1 r1 bs d4
              by (intro rules(4) [of r1 bs rq m]) (auto simp: run_def self_diff_def)
          qed
        next
          case (Inr v)
          from post obtain w s' where
            w: "w = [] \<and> s' = s1 \<or>
                \<not> chk \<and> \<not> (tgt = ''absent'' \<and> bs = ''absent'') \<and>
         (\<exists>rq resp. is_write rq \<and> w = [(rq, Inr resp)] \<and>
                   client rq s1 = (Inr resp, s'))"
            and c4: "calls st4 = (g, Inr r1) # w" and r4: "remote st4 = s'"
          proof -
            from post consider
              "remote st4 = s1" "calls st4 = [(g, Inr r1)]"
            | rq where "\<not> q" "is_write rq" "calls st4 = [(g, Inr r1), (rq, fst (client rq s1))]"
                "remote st4 = snd (client rq s1)"
                "\<And>m. fst (client rq s1) = Inl m \<Longrightarrow> False"
              using Inr by (auto simp: act_post_def st3_def)
            then show thesis
            proof cases
              case 1
              then show thesis by (intro that [of "[]" s1]) auto
            next
              case (2 rq)
              obtain resp where "fst (client rq s1) = Inr resp"
                using 2(5) by (cases "fst (client rq s1)") auto
              then show thesis using 2(2,3,4) nq [OF 2(1)]
                by (intro that [of "[(rq, Inr resp)]" "snd (client rq s1)"])
                   (auto simp: prod_eq_iff)
            qed
          qed
          obtain x2 s5 where c2: "client g s' = (x2, s5)" by (cases "client g s'")
          have w': "w = [] \<and> s' = snd (client g s) \<or>
                \<not> chk \<and> \<not> (tgt = ''absent'' \<and> bs = ''absent'') \<and>
         (\<exists>rq resp. is_write rq \<and> w = [(rq, Inr resp)] \<and>
                   client rq (snd (client g s)) = (Inr resp, s'))"
            using w c1 by simp
          show thesis
          proof (cases x2)
            case (Inl m)
            have "run_try key (query_raw client g) lookup tgt (init_state s) =
                    (Inl (IncusClientException m),
                     st4\<lparr>remote := s5, calls := calls st4 @ [(g, Inl m)]\<rparr>)"
              using RT a Inr c2 r4 Inl by (simp add: rest_def query_raw_def)
            then show thesis using R c1 r1 bs d4 c4 c2 Inl w'
              by (intro rules(5) [of r1 bs w s' m]) (auto simp: run_def self_diff_def)
          next
            case r2: (Inr r2)
            show thesis
            proof (cases "incus_to_module_state r2")
              case (Inl e)
              then have e: "e = PyException ''unknown resource state''"
                using classify_cases [of r2] by auto
              have "run_try key (query_raw client g) lookup tgt (init_state s) =
                    (Inl e, st4\<lparr>remote := s5, calls := calls st4 @ [(g, Inr r2)],
                                diff_after := [(key, metadata r2)]\<rparr>)"
                using RT a Inr c2 r4 r2 Inl d4 by (simp add: rest_def query_raw_def)
              then show thesis using R c1 r1 bs d4 c4 c2 r2 w' Inl e
                by (intro rules(6) [of r1 bs w s' r2]) (auto simp: run_def self_diff_def)
            next
              case afs: (Inr afs)
              have "run_try key (query_raw client g) lookup tgt (init_state s) =
                    (Inr \<lparr>changed = \<not> py_eq (metadata r1) (metadata r2), old_state = PStr bs,
                          rdiff = \<lparr>before = [(key, metadata r1), (''state'', PStr bs)],
                                   after = [(key, metadata r2), (''state'', PStr afs)]\<rparr>,
                          resource_key = key, resource = metadata r2\<rparr>,
                     st4\<lparr>remote := s5, calls := calls st4 @ [(g, Inr r2)],
                         diff_after := [(key, metadata r2), (''state'', PStr afs)]\<rparr>)"
                using RT a Inr c2 r4 r2 afs d4 K
                by (simp add: rest_def query_raw_def self_diff_def)
              then show thesis using R c1 r1 bs d4 c4 c2 r2 w' afs
                by (intro rules(7) [of r1 bs w s' r2 afs]) (auto simp: run_def)
            qed
          qed
        qed
      qed
      from dispatch_cases [of tgt] show thesis
      proof (elim disjE)
        assume "map_of ACTION_DISPATCH tgt = None"
        then show thesis using T
          by (intro crashed [of "KeyError tgt"]) (auto simp: ACTION_DISPATCH_def split: if_splits)
      next
        assume d: "map_of ACTION_DISPATCH tgt = Some (PStr ''_present'')"
        show thesis
        proof (cases "lookup ''_present''")
          case None
          then show thesis using T d
            by (intro crashed [of "AttributeError ''_present''"])
               (auto simp: ACTION_DISPATCH_def split: if_splits)
        next
          case (Some act)
          then show thesis using T d
            by (intro fin [of "''_present''" act]) (auto simp: ACTION_DISPATCH_def split: if_splits)
        qed
      next
        assume d: "map_of ACTION_DISPATCH tgt = Some (PStr ''_absent'')"
        show thesis
        proof (cases "lookup ''_absent''")
          case None
          then show thesis using A unfolding methods_ok_def by auto
        next
          case (Some act)
          then show thesis using T d
            by (intro fin [of "''_absent''" act]) (auto simp: ACTION_DISPATCH_def split: if_splits)
        qed
      qed
    qed
  qed
qed

lemma result_key_not_state: "result_key iv \<noteq> ''state''"
  by (cases iv) simp_all

lemma acl_methods_ok: "methods_ok (check_mode self) client (acl_getattr client self)"
  unfolding methods_ok_def
proof (intro conjI allI impI)
  fix m act st x st'
  assume "acl_getattr client self m = Some act" "act st = (x, st')"
  then show "act_post (silent (check_mode self) m (diff_before st)) client st x st'"
    by (auto simp: acl_getattr_def silent_def split: if_splits
             dest: acl_present_post acl_absent_post)
next
  show "\<exists>act. acl_getattr client self ''_absent'' = Some act \<and>
          (\<forall>st. map_of (diff_before st) ''state'' = Some (PStr ''absent'') \<longrightarrow>
                act st = (Inr None, st))"
    by (simp add: acl_getattr_def acl_absent_def)
qed

lemma zone_methods_ok: "methods_ok (check_mode self) client (zone_getattr client self)"
  unfolding methods_ok_def
proof (intro conjI allI impI)
  fix m act st x st'
  assume "zone_getattr client self m = Some act" "act st = (x, st')"
  then show "act_post (silent (check_mode self) m (diff_before st)) client st x st'"
    by (auto simp: zone_getattr_def silent_def split: if_splits
             dest: zone_present_post zone_absent_post)
next
  show "\<exists>act. zone_getattr client self ''_absent'' = Some act \<and>
          (\<forall>st. map_of (diff_before st) ''state'' = Some (PStr ''absent'') \<longrightarrow>
                act st = (Inr None, st))"
    by (simp add: zone_getattr_def zone_absent_def)
qed

lemma peer_methods_ok: "methods_ok (check_mode self) client (peer_getattr client self)"
  unfolding methods_ok_def
proof (intro conjI allI impI)
  fix m act st x st'
  assume "peer_getattr client self m = Some act" "act st = (x, st')"
  then show "act_post (silent (check_mode self) m (diff_before st)) client st x st'"
    by (auto simp: peer_getattr_def silent_def split: if_splits
             dest: peer_present_post peer_absent_post)
next
  show "\<exists>act. peer_getattr client self ''_absent'' = Some act \<and>
          (\<forall>st. map_of (diff_before st) ''state'' = Some (PStr ''absent'') \<longrightarrow>
                act st = (Inr None, st))"
    by (simp add: peer_getattr_def peer_absent_def)
qed

lemma forward_methods_ok: "methods_ok (check_mode self) client (forward_getattr client self)"
  unfolding methods_ok_def
proof (intro conjI allI impI)
  fix m act st x st'
  assume "forward_getattr client self m = Some act" "act st = (x, st')"
  then show "act_post (silent (check_mode self) m (diff_before st)) client st x st'"
    by (auto simp: forward_getattr_def silent_def split: if_splits
             dest: forward_present_post forward_absent_post)
next
  show "\<exists>act. forward_getattr client self ''_absent'' = Some act \<and>
          (\<forall>st. map_of (diff_before st) ''state'' = Some (PStr ''absent'') \<longrightarrow>
                act st = (Inr None, st))"
    by (simp add: forward_getattr_def forward_absent_def)
qed

lemma lb_methods_ok: "methods_ok (check_mode self) client (lb_getattr crepr client self)"
  unfolding methods_ok_def
proof (intro conjI allI impI)
  fix m act st x st'
  assume "lb_getattr crepr client self m = Some act" "act st = (x, st')"
  then show "act_post (silent (check_mode self) m (diff_before st)) client st x st'"
    by (auto simp: lb_getattr_def silent_def split: if_splits
             dest: lb_present_post lb_absent_post)
next
  show "\<exists>act. lb_getattr crepr client self ''_absent'' = Some act \<and>
          (\<forall>st. map_of (diff_before st) ''state'' = Some (PStr ''absent'') \<longrightarrow>
                act st = (Inr None, st))"
    by (simp add: lb_getattr_def lb_absent_def)
qed

lemma invoke_shape:
  obtains g lookup where
    "invoke crepr client iv = run (result_key iv) (query_raw client g) lookup (desired iv)"
    "\<not> is_write g"
    "methods_ok (dry_run iv) client lookup"
proof (cases iv)
  case (Acl self)
  show thesis
  proof (rule that [of "get_request (''/1.0/network-acls/'' @ acl_name self)" "acl_getattr client self"])
    show "invoke crepr client iv =
      run (result_key iv) (query_raw client (get_request (''/1.0/network-acls/'' @ acl_name self)))
        (acl_getattr client self) (desired iv)"
      using Acl by (simp add: acl_run_def acl_get_acl_def)
  qed (simp_all add: Acl acl_methods_ok)
next
  case (Zone self)
  show thesis
  proof (rule that [of "get_request (''/1.0/network-zones/'' @ zone_name self)" "zone_getattr client self"])
    show "invoke crepr client iv =
      run (result_key iv) (query_raw client (get_request (''/1.0/network-zones/'' @ zone_name self)))
        (zone_getattr client self) (desired iv)"
      using Zone by (simp add: zone_run_def zone_get_network_zone_def)
  qed (simp_all add: Zone zone_methods_ok)
next
  case (Peer self)
  show thesis
  proof (rule that [of "get_request (''/1.0/networks/'' @ peer_network self @ ''/peers/'' @ peer_name self)"
        "peer_getattr client self"])
    show "invoke crepr client iv =
      run (result_key iv) (query_raw client
         (get_request (''/1.0/networks/'' @ peer_network self @ ''/peers/'' @ peer_name self)))
        (peer_getattr client self) (desired iv)"
      using Peer by (simp add: peer_run_def peer_get_peer_def)
  qed (simp_all add: Peer peer_methods_ok)
next
  case (Forward self)
  show thesis
  proof (rule that [of "get_request (''/1.0/networks/'' @ forward_network self @ ''/forwards'')"
        "forward_getattr client self"])
    show "invoke crepr client iv =
      run (result_key iv) (query_raw client
         (get_request (''/1.0/networks/'' @ forward_network self @ ''/forwards'')))
        (forward_getattr client self) (desired iv)"
      using Forward by (simp add: forward_run_def forward_get_network_forwards_def)
  qed (simp_all add: Forward forward_methods_ok)
next
  case (LoadBalancer self)
  show thesis
  proof (rule that [of "get_request (''/1.0/networks/'' @ lb_network self @ ''/load-balancers/'' @
                     lb_listen_address self)" "lb_getattr crepr client self"])
    show "invoke crepr client iv =
      run (result_key iv) (query_raw client
         (get_request (''/1.0/networks/'' @ lb_network self @ ''/load-balancers/'' @
                     lb_listen_address self)))
        (lb_getattr crepr client self) (desired iv)"
      using LoadBalancer by (simp add: lb_run_def lb_get_lb_def)
  qed (simp_all add: LoadBalancer lb_methods_ok)
qed

lemma invoke_cases_setup:
  obtains g lookup out st where
    "run (result_key iv) (query_raw client g) lookup (desired iv) s = (out, st)"
    "invoke crepr client iv s = (out, st)"
    "\<not> is_write g"
    "methods_ok (dry_run iv) client lookup"
proof -
  obtain g lookup where
    sh: "invoke crepr client iv = run (result_key iv) (query_raw client g) lookup (desired iv)"
    and g: "\<not> is_write g"
    and A: "methods_ok (dry_run iv) client lookup"
    by (rule invoke_shape [of crepr client iv]) blast
  obtain out st where R: "run (result_key iv) (query_raw client g) lookup (desired iv) s = (out, st)"
    by (cases "run (result_key iv) (query_raw client g) lookup (desired iv) s")
  show thesis using that [OF R _ g A] sh R by simp
qed

section \<open>Change detection\<close>

text \<open>
  Claim C1. Whenever \<open>run()\<close> completes through \<open>exit_json\<close>, the log of the invocation
  is a first fetch, at most one write, and a second fetch; the \<open>before\<close> and \<open>after\<close>
  resource entries of the diff are the metadata of those two fetches, and \<open>changed\<close> is
  true exactly when Python's \<open>!=\<close> holds between them, whether or not a write was
  sent in between.
\<close>

theorem changed_iff_metadata_differs:
  assumes "fst (invoke crepr client iv s) = Exit_json r"
  shows "\<exists>g r1 w r2.
           calls (snd (invoke crepr client iv s)) = (g, Inr r1) # w @ [(g, Inr r2)] \<and>
           \<not> is_write g \<and> length w \<le> 1 \<and>
           map_of (before (rdiff r)) (resource_key r) = Some (metadata r1) \<and>
           map_of (after (rdiff r)) (resource_key r) = Some (metadata r2) \<and>
           changed r = (\<not> py_eq (metadata r1) (metadata r2))"
proof -
  obtain g lookup where
    sh: "invoke crepr client iv = run (result_key iv) (query_raw client g) lookup (desired iv)"
    and g: "\<not> is_write g"
    and A: "methods_ok (dry_run iv) client lookup"
    by (rule invoke_shape [of crepr client iv]) blast
  obtain out st where R: "run (result_key iv) (query_raw client g) lookup (desired iv) s = (out, st)"
    by (cases "run (result_key iv) (query_raw client g) lookup (desired iv) s")
  have out: "out = Exit_json r" using assms sh R by simp
  have st: "snd (invoke crepr client iv s) = st" using sh R by simp
  from R A result_key_not_state show ?thesis
  proof (cases rule: run_cases)
    case (exit r1 bs w s' r2 afs)
    have "length w \<le> 1" using exit(3) by auto
    then show ?thesis using exit out g st
      by (intro exI [of _ g] exI [of _ r1] exI [of _ w] exI [of _ r2]) auto
  qed (use out in auto)
qed

text \<open>
  An update (\<open>PATCH\<close>) is sent and the second fetch returns the metadata of the first:
  the run reports \<open>changed = False\<close>.
\<close>

theorem changed_iff_metadata_differs_witness:
  "fst (invoke no_repr scripted (Acl acl_demo)
          [ok_resp acl_meta, ok_resp PNone, ok_resp acl_meta]) =
     Exit_json \<lparr>changed = False, old_state = PStr ''present'',
        rdiff = \<lparr>before = [(''acl'', acl_meta), (''state'', PStr ''present'')],
                 after = [(''acl'', acl_meta), (''state'', PStr ''present'')]\<rparr>,
        resource_key = ''acl'', resource = acl_meta\<rparr> \<and>
   map (meth \<circ> fst)
     (calls (snd (invoke no_repr scripted (Acl acl_demo)
                    [ok_resp acl_meta, ok_resp PNone, ok_resp acl_meta]))) =
     [''GET'', ''PATCH'', ''GET''] \<and>
   (\<exists>g r1 w r2.
      calls (snd (invoke no_repr scripted (Acl acl_demo)
                    [ok_resp acl_meta, ok_resp PNone, ok_resp acl_meta])) =
        (g, Inr r1) # w @ [(g, Inr r2)] \<and>
      \<not> is_write g \<and> length w \<le> 1 \<and>
      map_of [(''acl'', acl_meta), (''state'', PStr ''present'')] ''acl'' = Some (metadata r1) \<and>
      map_of [(''acl'', acl_meta), (''state'', PStr ''present'')] ''acl'' = Some (metadata r2) \<and>
      False = (\<not> py_eq (metadata r1) (metadata r2)))"
proof -
  have h: "fst (invoke no_repr scripted (Acl acl_demo)
          [ok_resp acl_meta, ok_resp PNone, ok_resp acl_meta]) =
     Exit_json \<lparr>changed = False, old_state = PStr ''present'',
        rdiff = \<lparr>before = [(''acl'', acl_meta), (''state'', PStr ''present'')],
                 after = [(''acl'', acl_meta), (''state'', PStr ''present'')]\<rparr>,
        resource_key = ''acl'', resource = acl_meta\<rparr>"
    by code_simp
  have c: "map (meth \<circ> fst)
     (calls (snd (invoke no_repr scripted (Acl acl_demo)
                    [ok_resp acl_meta, ok_resp PNone, ok_resp acl_meta]))) =
     [''GET'', ''PATCH'', ''GET'']"
    by code_simp
  show ?thesis
    using h c changed_iff_metadata_differs [OF h] by simp
qed

section \<open>Classification\<close>

text \<open>
  Claim C2. The classification returns \<open>present\<close> on status code 200, \<open>absent\<close> on
  any other status code with error code 404, and raises the exception with the message
  \<open>unknown resource state\<close> on every other combination.
\<close>

theorem classification:
  "(status_code r = 200 \<longrightarrow> incus_to_module_state r = Inr ''present'') \<and>
   (status_code r \<noteq> 200 \<and> error_code r = 404 \<longrightarrow> incus_to_module_state r = Inr ''absent'') \<and>
   (status_code r \<noteq> 200 \<and> error_code r \<noteq> 404 \<longrightarrow>
      incus_to_module_state r = Inl (PyException ''unknown resource state''))"
  by (simp add: incus_to_module_state_def)

theorem classification_witness:
  "incus_to_module_state \<lparr>status_code = 200, error_code = 0, metadata = acl_meta\<rparr> =
     Inr ''present'' \<and>
   incus_to_module_state \<lparr>status_code = 0, error_code = 404, metadata = PNone\<rparr> =
     Inr ''absent'' \<and>
   incus_to_module_state \<lparr>status_code = 0, error_code = 500, metadata = PNone\<rparr> =
     Inl (PyException ''unknown resource state'')"
  using classification [of "\<lparr>status_code = 200, error_code = 0, metadata = acl_meta\<rparr>"]
        classification [of "\<lparr>status_code = 0, error_code = 404, metadata = PNone\<rparr>"]
        classification [of "\<lparr>status_code = 0, error_code = 500, metadata = PNone\<rparr>"]
  by simp

section \<open>Check mode\<close>

text \<open>
  Claim C3. Under check mode no invocation of any of the five modules sends a write
  (a call whose method is not \<open>GET\<close>), whatever the desired state and whatever the
  first fetch returned. If reading leaves the remote state as it is, so that the second
  fetch sees what the first one saw, a run that completes reports \<open>changed = False\<close>;
  a failed run reports \<open>changed = False\<close> in any case.
\<close>

theorem check_mode_no_write:
  assumes "dry_run iv"
  shows "(\<forall>c \<in> set (calls (snd (invoke crepr client iv s))). \<not> is_write (fst c)) \<and>
         ((\<forall>rq. \<not> is_write rq \<longrightarrow> snd (client rq s) = s) \<longrightarrow>
            (\<forall>r. fst (invoke crepr client iv s) = Exit_json r \<longrightarrow> \<not> changed r)) \<and>
         (\<forall>f. fst (invoke crepr client iv s) = Fail_json f \<longrightarrow> \<not> fchanged f)"
proof -
  obtain g lookup out st where
    R: "run (result_key iv) (query_raw client g) lookup (desired iv) s = (out, st)"
    and I: "invoke crepr client iv s = (out, st)"
    and g: "\<not> is_write g"
    and A: "methods_ok (dry_run iv) client lookup"
    by (rule invoke_cases_setup [of iv client s crepr]) blast
  from R A result_key_not_state show ?thesis
  proof (cases rule: run_cases)
    case (exit r1 bs w s' r2 afs)
    have w: "w = []" "s' = snd (client g s)" using exit(3) assms by auto
    have "r2 = r1" if "\<forall>rq. \<not> is_write rq \<longrightarrow> snd (client rq s) = s"
      using that g w exit(1,4) by simp
    then show ?thesis using exit w g I by (auto simp: py_eq_refl)
  qed (use assms g I in auto)
qed

text \<open>
  A dry run of the ACL module against a read-only remote system that holds the ACL,
  and one whose first fetch fails.
\<close>

theorem check_mode_no_write_witness:
  "dry_run (Acl acl_dry) \<and>
   list_all (\<lambda>c. \<not> is_write (fst c))
     (calls (snd (invoke no_repr frozen (Acl acl_dry) acl_table))) \<and>
   map (meth \<circ> fst) (calls (snd (invoke no_repr frozen (Acl acl_dry) acl_table))) =
     [''GET'', ''GET''] \<and>
   fst (invoke no_repr frozen (Acl acl_dry) acl_table) =
     Exit_json \<lparr>changed = False, old_state = PStr ''present'',
        rdiff = \<lparr>before = [(''acl'', acl_meta), (''state'', PStr ''present'')],
                 after = [(''acl'', acl_meta), (''state'', PStr ''present'')]\<rparr>,
        resource_key = ''acl'', resource = acl_meta\<rparr> \<and>
   fst (invoke no_repr scripted (Acl acl_dry) [Inl ''connection refused'']) =
     Fail_json \<lparr>msg = ''connection refused'', fchanged = False,
        fdiff = \<lparr>before = [], after = []\<rparr>\<rparr>"
proof -
  have d: "dry_run (Acl acl_dry)" by (simp add: acl_dry_def)
  have ro: "\<forall>rq. \<not> is_write rq \<longrightarrow> snd (frozen rq acl_table) = acl_table"
    by (simp add: frozen_def is_write_def split: option.split)
  have c: "map (meth \<circ> fst) (calls (snd (invoke no_repr frozen (Acl acl_dry) acl_table))) =
     [''GET'', ''GET'']"
    by code_simp
  have e: "fst (invoke no_repr frozen (Acl acl_dry) acl_table) =
     Exit_json \<lparr>changed = False, old_state = PStr ''present'',
        rdiff = \<lparr>before = [(''acl'', acl_meta), (''state'', PStr ''present'')],
                 after = [(''acl'', acl_meta), (''state'', PStr ''present'')]\<rparr>,
        resource_key = ''acl'', resource = acl_meta\<rparr>"
    by code_simp
  have f: "fst (invoke no_repr scripted (Acl acl_dry) [Inl ''connection refused'']) =
     Fail_json \<lparr>msg = ''connection refused'', fchanged = False,
        fdiff = \<lparr>before = [], after = []\<rparr>\<rparr>"
    by code_simp
  have n: "list_all (\<lambda>c. \<not> is_write (fst c))
     (calls (snd (invoke no_repr frozen (Acl acl_dry) acl_table)))"
    using check_mode_no_write [OF d, of no_repr frozen acl_table]
    by (simp add: list_all_iff)
  have "\<not> changed \<lparr>changed = False, old_state = PStr ''present'',
        rdiff = \<lparr>before = [(''acl'', acl_meta), (''state'', PStr ''present'')],
                 after = [(''acl'', acl_meta), (''state'', PStr ''present'')]\<rparr>,
        resource_key = ''acl'', resource = acl_meta\<rparr>"
    using check_mode_no_write [OF d, of no_repr frozen acl_table] ro e by blast
  then show ?thesis
    using d n c e f by simp
qed

section \<open>Failures\<close>

text \<open>
  Claim C4 says that every fatal condition, an unexpected fetch status among them,
  reaches the caller as one structured failure record. \<open>run\<close> catches
  \<open>IncusClientException\<close> only; \<open>_incus_to_module_state\<close> raises a plain \<open>Exception\<close>,
  which leaves \<open>run\<close> uncaught. A first fetch answered with status 500 and error 500:
\<close>

theorem protocol_error_is_uncaught:
  "fst (invoke no_repr scripted (Acl acl_demo)
          [Inr \<lparr>status_code = 500, error_code = 500, metadata = PNone\<rparr>]) =
     Uncaught (PyException ''unknown resource state'')"
  by code_simp

text \<open>
  Claim C4, amended. A call that raises a client exception (a failed fetch or a
  rejected write) is the last call of the invocation, which fails with the exception's
  message, \<open>changed = False\<close> and the diff collected so far: nothing when the first
  fetch failed, otherwise the \<open>before\<close> resource and state with an empty \<open>after\<close>.
  A fetch whose response is neither status 200 nor error 404 ends the invocation with
  the uncaught exception \<open>unknown resource state\<close>.
\<close>

theorem client_exceptions_are_structured:
  "((rq, Inl m) \<in> set (calls (snd (invoke crepr client iv s))) \<longrightarrow>
      last (calls (snd (invoke crepr client iv s))) = (rq, Inl m) \<and>
      (\<exists>d. fst (invoke crepr client iv s) =
              Fail_json \<lparr>msg = m, fchanged = False, fdiff = \<lparr>before = d, after = []\<rparr>\<rparr> \<and>
           (length (calls (snd (invoke crepr client iv s))) = 1 \<and> d = [] \<or>
            (\<exists>r1 bs. snd (hd (calls (snd (invoke crepr client iv s)))) = Inr r1 \<and>
               incus_to_module_state r1 = Inr bs \<and>
               d = [(result_key iv, metadata r1), (''state'', PStr bs)])))) \<and>
   ((rq, Inr resp) \<in> set (calls (snd (invoke crepr client iv s))) \<and> \<not> is_write rq \<and>
    incus_to_module_state resp = Inl e \<longrightarrow>
      fst (invoke crepr client iv s) = Uncaught (PyException ''unknown resource state''))"
proof -
  obtain g lookup out st where
    R: "run (result_key iv) (query_raw client g) lookup (desired iv) s = (out, st)"
    and I: "invoke crepr client iv s = (out, st)"
    and g: "\<not> is_write g"
    and A: "methods_ok (dry_run iv) client lookup"
    by (rule invoke_cases_setup [of iv client s crepr]) blast
  from R A result_key_not_state show ?thesis
  proof (cases rule: run_cases)
    case (fetch_raised m')
    then show ?thesis using I by auto
  next
    case (unknown_state r1)
    then show ?thesis using I by auto
  next
    case (crashed r1 bs e')
    then show ?thesis using I by auto
  next
    case (write_raised r1 bs rq' m')
    then show ?thesis using I g by auto
  next
    case (refetch_raised r1 bs w s' m')
    then show ?thesis using I g by auto
  next
    case (unknown_after r1 bs w s' r2)
    then show ?thesis using I g by auto
  next
    case (exit r1 bs w s' r2 afs)
    then show ?thesis using I g by auto
  qed
qed


text \<open>
  An update whose second fetch times out, and a creation whose second fetch is answered
  with status 202.
\<close>

theorem client_exceptions_are_structured_witness:
  "(get_request ''/1.0/network-acls/acl1'', Inl ''timed out'')
     \<in> set (calls (snd (invoke no_repr scripted (Acl acl_demo)
                           [ok_resp acl_meta, ok_resp PNone, Inl ''timed out'']))) \<and>
   last (calls (snd (invoke no_repr scripted (Acl acl_demo)
                      [ok_resp acl_meta, ok_resp PNone, Inl ''timed out'']))) =
     (get_request ''/1.0/network-acls/acl1'', Inl ''timed out'') \<and>
   fst (invoke no_repr scripted (Acl acl_demo)
          [ok_resp acl_meta, ok_resp PNone, Inl ''timed out'']) =
     Fail_json \<lparr>msg = ''timed out'', fchanged = False,
        fdiff = \<lparr>before = [(''acl'', acl_meta), (''state'', PStr ''present'')],
                 after = []\<rparr>\<rparr> \<and>
   (get_request ''/1.0/network-acls/acl1'',
    Inr \<lparr>status_code = 202, error_code = 0, metadata = PNone\<rparr>)
     \<in> set (calls (snd (invoke no_repr scripted (Acl acl_demo)
                           [missing_resp, ok_resp PNone,
                            Inr \<lparr>status_code = 202, error_code = 0, metadata = PNone\<rparr>]))) \<and>
   \<not> is_write (get_request ''/1.0/network-acls/acl1'') \<and>
   incus_to_module_state \<lparr>status_code = 202, error_code = 0, metadata = PNone\<rparr> =
     Inl (PyException ''unknown resource state'') \<and>
   fst (invoke no_repr scripted (Acl acl_demo)
          [missing_resp, ok_resp PNone,
           Inr \<lparr>status_code = 202, error_code = 0, metadata = PNone\<rparr>]) =
     Uncaught (PyException ''unknown resource state'')"
proof -
  have a: "(get_request ''/1.0/network-acls/acl1'', Inl ''timed out'')
     \<in> set (calls (snd (invoke no_repr scripted (Acl acl_demo)
                           [ok_resp acl_meta, ok_resp PNone, Inl ''timed out''])))"
    by code_simp
  have b: "(get_request ''/1.0/network-acls/acl1'',
    Inr \<lparr>status_code = 202, error_code = 0, metadata = PNone\<rparr>)
     \<in> set (calls (snd (invoke no_repr scripted (Acl acl_demo)
                           [missing_resp, ok_resp PNone,
                            Inr \<lparr>status_code = 202, error_code = 0, metadata = PNone\<rparr>])))"
    by code_simp
  have g: "\<not> is_write (get_request ''/1.0/network-acls/acl1'')"
    by (simp add: is_write_def get_request_def)
  have k: "incus_to_module_state \<lparr>status_code = 202, error_code = 0, metadata = PNone\<rparr> =
     Inl (PyException ''unknown resource state'')"
    by (simp add: incus_to_module_state_def)
  have f: "fst (invoke no_repr scripted (Acl acl_demo)
          [ok_resp acl_meta, ok_resp PNone, Inl ''timed out'']) =
     Fail_json \<lparr>msg = ''timed out'', fchanged = False,
        fdiff = \<lparr>before = [(''acl'', acl_meta), (''state'', PStr ''present'')],
                 after = []\<rparr>\<rparr>"
    by code_simp
  have l: "last (calls (snd (invoke no_repr scripted (Acl acl_demo)
                      [ok_resp acl_meta, ok_resp PNone, Inl ''timed out'']))) =
     (get_request ''/1.0/network-acls/acl1'', Inl ''timed out'')"
    using a client_exceptions_are_structured
      [of "get_request ''/1.0/network-acls/acl1''" "''timed out''" no_repr scripted
          "Acl acl_demo" "[ok_resp acl_meta, ok_resp PNone, Inl ''timed out'']"]
    by blast
  have u: "fst (invoke no_repr scripted (Acl acl_demo)
          [missing_resp, ok_resp PNone,
           Inr \<lparr>status_code = 202, error_code = 0, metadata = PNone\<rparr>]) =
     Uncaught (PyException ''unknown resource state'')"
    using b g k client_exceptions_are_structured
      [where rq = "get_request ''/1.0/network-acls/acl1''" and crepr = no_repr
         and client = scripted and iv = "Acl acl_demo"
         and s = "[missing_resp, ok_resp PNone,
                   Inr \<lparr>status_code = 202, error_code = 0, metadata = PNone\<rparr>]"
         and resp = "\<lparr>status_code = 202, error_code = 0, metadata = PNone\<rparr>"
         and e = "PyException ''unknown resource state''"]
    by blast
  show ?thesis using a b g k f l u by simp
qed

section \<open>A rejected write\<close>

text \<open>
  Claim C5. When the create, update or delete call raises a client exception, that call
  is the last one of the invocation: the log is the first fetch and the failed write,
  no second fetch follows, and the invocation fails with the exception's message,
  \<open>changed = False\<close>, and a diff whose \<open>before\<close> holds the fetched resource and its
  state and whose \<open>after\<close> is empty.
\<close>

theorem write_failure_aborts:
  assumes "(rq, Inl m) \<in> set (calls (snd (invoke crepr client iv s)))"
    and "is_write rq"
  shows "\<exists>g r1 bs.
           calls (snd (invoke crepr client iv s)) = [(g, Inr r1), (rq, Inl m)] \<and>
           \<not> is_write g \<and>
           incus_to_module_state r1 = Inr bs \<and>
           fst (invoke crepr client iv s) =
             Fail_json \<lparr>msg = m, fchanged = False,
               fdiff = \<lparr>before = [(result_key iv, metadata r1), (''state'', PStr bs)],
                        after = []\<rparr>\<rparr>"
proof -
  obtain g lookup out st where
    R: "run (result_key iv) (query_raw client g) lookup (desired iv) s = (out, st)"
    and I: "invoke crepr client iv s = (out, st)"
    and g: "\<not> is_write g"
    and A: "methods_ok (dry_run iv) client lookup"
    by (rule invoke_cases_setup [of iv client s crepr]) blast
  have h: "(rq, Inl m) \<in> set (calls st)" using assms(1) I by simp
  from R A result_key_not_state show ?thesis
  proof (cases rule: run_cases)
    case (write_raised r1 bs rq' m')
    then show ?thesis using h g assms(2) I by auto
  qed (use h g assms(2) in auto)
qed

text \<open>The ACL module creating an ACL that the remote system rejects.\<close>

theorem write_failure_aborts_witness:
  "(write_request ''POST'' ''/1.0/network-acls''
      (Some (PDict [(''name'', PStr ''acl1''), (''config'', PDict []),
                    (''description'', PStr ''web''), (''egress'', PList []),
                    (''ingress'', PList [])])),
    Inl ''HTTP 400: bad request'')
     \<in> set (calls (snd (invoke no_repr scripted (Acl acl_demo)
                           [missing_resp, Inl ''HTTP 400: bad request'']))) \<and>
   is_write (write_request ''POST'' ''/1.0/network-acls''
      (Some (PDict [(''name'', PStr ''acl1''), (''config'', PDict []),
                    (''description'', PStr ''web''), (''egress'', PList []),
                    (''ingress'', PList [])]))) \<and>
   map (meth \<circ> fst) (calls (snd (invoke no_repr scripted (Acl acl_demo)
                           [missing_resp, Inl ''HTTP 400: bad request'']))) =
     [''GET'', ''POST''] \<and>
   fst (invoke no_repr scripted (Acl acl_demo) [missing_resp, Inl ''HTTP 400: bad request'']) =
     Fail_json \<lparr>msg = ''HTTP 400: bad request'', fchanged = False,
        fdiff = \<lparr>before = [(''acl'', PNone), (''state'', PStr ''absent'')], after = []\<rparr>\<rparr>"
proof -
  have a: "(write_request ''POST'' ''/1.0/network-acls''
      (Some (PDict [(''name'', PStr ''acl1''), (''config'', PDict []),
                    (''description'', PStr ''web''), (''egress'', PList []),
                    (''ingress'', PList [])])),
    Inl ''HTTP 400: bad request'')
     \<in> set (calls (snd (invoke no_repr scripted (Acl acl_demo)
                           [missing_resp, Inl ''HTTP 400: bad request''])))"
    by code_simp
  have w: "is_write (write_request ''POST'' ''/1.0/network-acls''
      (Some (PDict [(''name'', PStr ''acl1''), (''config'', PDict []),
                    (''description'', PStr ''web''), (''egress'', PList []),
                    (''ingress'', PList [])])))"
    by code_simp
  have c: "map (meth \<circ> fst) (calls (snd (invoke no_repr scripted (Acl acl_demo)
                           [missing_resp, Inl ''HTTP 400: bad request'']))) =
     [''GET'', ''POST'']"
    by code_simp
  from write_failure_aborts [OF a w] obtain g r1 bs where
    "calls (snd (invoke no_repr scripted (Acl acl_demo)
                           [missing_resp, Inl ''HTTP 400: bad request''])) =
       [(g, Inr r1), (write_request ''POST'' ''/1.0/network-acls''
      (Some (PDict [(''name'', PStr ''acl1''), (''config'', PDict []),
                    (''description'', PStr ''web''), (''egress'', PList []),
                    (''ingress'', PList [])])), Inl ''HTTP 400: bad request'')]"
    and f: "fst (invoke no_repr scripted (Acl acl_demo) [missing_resp, Inl ''HTTP 400: bad request'']) =
       Fail_json \<lparr>msg = ''HTTP 400: bad request'', fchanged = False,
               fdiff = \<lparr>before = [(result_key (Acl acl_demo), metadata r1), (''state'', PStr bs)],
                        after = []\<rparr>\<rparr>"
    by blast
  have e: "fst (invoke no_repr scripted (Acl acl_demo) [missing_resp, Inl ''HTTP 400: bad request'']) =
     Fail_json \<lparr>msg = ''HTTP 400: bad request'', fchanged = False,
        fdiff = \<lparr>before = [(''acl'', PNone), (''state'', PStr ''absent'')], after = []\<rparr>\<rparr>"
    by code_simp
  show ?thesis using a w c e f by simp
qed

section \<open>The URLs of the forward module\<close>

text \<open>
  Claim C6 expects the forward module to fetch
  \<open>/1.0/networks/{network}/forwards/{listen_address}\<close> and to write under
  \<open>/1.0/networks/{network}/forwards\<close>. The module fetches the collection
  \<open>/1.0/networks/{network}/forwards\<close> and writes under \<open>/1.0/network/{network}/forwards\<close>.
  The calls of one invocation for network \<open>net0\<close> and listen address \<open>192.0.2.1\<close>:
\<close>

theorem forward_urls_issued:
  "map (\<lambda>c. (meth (fst c), url (fst c)))
     (calls (snd (invoke no_repr scripted (Forward forward_demo)
                    [ok_resp (PList []), ok_resp PNone, ok_resp (PList [])]))) =
     [(''GET'', ''/1.0/networks/net0/forwards''),
      (''PATCH'', ''/1.0/network/net0/forwards/192.0.2.1''),
      (''GET'', ''/1.0/networks/net0/forwards'')]"
  by code_simp

section \<open>Removing what is not there\<close>

text \<open>
  Claim C7 says that an invocation with desired state \<open>absent\<close> whose first fetch is
  classified \<open>absent\<close> sends no write and returns \<open>changed = False\<close>. No write is
  sent, but \<open>changed\<close> compares the first fetch with a second read of the remote
  system, and nothing in \<open>run\<close> keeps that read equal to the first. Two fetches, the
  first answered with error 404 and the second with an ACL:
\<close>

theorem absent_read_changes:
  "desired (Acl acl_gone) = ''absent'' \<and>
   map (meth \<circ> fst)
     (calls (snd (invoke no_repr scripted (Acl acl_gone) [missing_resp, ok_resp acl_meta]))) =
     [''GET'', ''GET''] \<and>
   fst (invoke no_repr scripted (Acl acl_gone) [missing_resp, ok_resp acl_meta]) =
     Exit_json \<lparr>changed = True, old_state = PStr ''absent'',
        rdiff = \<lparr>before = [(''acl'', PNone), (''state'', PStr ''absent'')],
                 after = [(''acl'', acl_meta), (''state'', PStr ''present'')]\<rparr>,
        resource_key = ''acl'', resource = acl_meta\<rparr>"
  by code_simp

text \<open>
  Claim C7, amended. When the desired state is \<open>absent\<close> and the first fetch is
  classified \<open>absent\<close>, the invocation sends no write of any kind and a completed run
  reports \<open>old_state = "absent"\<close>; when reading leaves the remote state as it is, so
  that the second fetch sees what the first one saw, the run completes and reports
  \<open>changed = False\<close>.
\<close>

theorem absent_stays_absent:
  assumes "desired iv = ''absent''"
    and "snd (hd (calls (snd (invoke crepr client iv s)))) = Inr resp"
    and "incus_to_module_state resp = Inr ''absent''"
  shows "(\<forall>c \<in> set (calls (snd (invoke crepr client iv s))). \<not> is_write (fst c)) \<and>
         (\<forall>r. fst (invoke crepr client iv s) = Exit_json r \<longrightarrow>
              old_state r = PStr ''absent'') \<and>
         ((\<forall>rq. \<not> is_write rq \<longrightarrow> snd (client rq s) = s) \<longrightarrow>
            (\<exists>r. fst (invoke crepr client iv s) = Exit_json r \<and> \<not> changed r \<and>
                 old_state r = PStr ''absent''))"
proof -
  obtain g lookup out st where
    R: "run (result_key iv) (query_raw client g) lookup (desired iv) s = (out, st)"
    and I: "invoke crepr client iv s = (out, st)"
    and g: "\<not> is_write g"
    and A: "methods_ok (dry_run iv) client lookup"
    by (rule invoke_cases_setup [of iv client s crepr]) blast
  have h: "snd (hd (calls st)) = Inr resp" using assms(2) I by simp
  from R A result_key_not_state show ?thesis
  proof (cases rule: run_cases)
    case (exit r1 bs w s' r2 afs)
    have r1: "r1 = resp" "bs = ''absent''" using exit(2,5) h assms(3) by auto
    have w: "w = []" "s' = snd (client g s)" using exit(3) assms(1) r1 by auto
    have "r2 = resp" if "\<forall>rq. \<not> is_write rq \<longrightarrow> snd (client rq s) = s"
      using that g w exit(1,4) r1 by simp
    then show ?thesis using exit r1 w g I by (auto simp: py_eq_refl)
  next
    case (write_raised r1 bs rq m)
    then show ?thesis using h assms by auto
  next
    case (refetch_raised r1 bs w s' m)
    have r1: "r1 = resp" "bs = ''absent''" using refetch_raised(2,5) h assms(3) by auto
    have w: "w = []" "s' = snd (client g s)" using refetch_raised(3) assms(1) r1 by auto
    have "False" if "\<forall>rq. \<not> is_write rq \<longrightarrow> snd (client rq s) = s"
      using that g w refetch_raised(1,4) by simp
    then show ?thesis using refetch_raised w g I by auto
  next
    case (unknown_after r1 bs w s' r2)
    have r1: "r1 = resp" "bs = ''absent''" using unknown_after(2,5) h assms(3) by auto
    have w: "w = []" "s' = snd (client g s)" using unknown_after(3) assms(1) r1 by auto
    have "False" if "\<forall>rq. \<not> is_write rq \<longrightarrow> snd (client rq s) = s"
      using that g w unknown_after(1,4,6) r1 assms(3) by simp
    then show ?thesis using unknown_after w g I by auto
  next
    case (crashed r1 bs e)
    then show ?thesis using h assms by auto
  qed (use assms h in auto)
qed

text \<open>The ACL module asked to remove an ACL from a remote system that has none.\<close>

theorem absent_stays_absent_witness:
  "desired (Acl acl_gone) = ''absent'' \<and>
   snd (hd (calls (snd (invoke no_repr frozen (Acl acl_gone) [])))) =
     Inr \<lparr>status_code = 0, error_code = 404, metadata = PNone\<rparr> \<and>
   incus_to_module_state \<lparr>status_code = 0, error_code = 404, metadata = PNone\<rparr> =
     Inr ''absent'' \<and>
   list_all (\<lambda>c. \<not> is_write (fst c))
     (calls (snd (invoke no_repr frozen (Acl acl_gone) []))) \<and>
   fst (invoke no_repr frozen (Acl acl_gone) []) =
     Exit_json \<lparr>changed = False, old_state = PStr ''absent'',
        rdiff = \<lparr>before = [(''acl'', PNone), (''state'', PStr ''absent'')],
                 after = [(''acl'', PNone), (''state'', PStr ''absent'')]\<rparr>,
        resource_key = ''acl'', resource = PNone\<rparr>"
proof -
  have d: "desired (Acl acl_gone) = ''absent''" by (simp add: acl_gone_def)
  have f: "snd (hd (calls (snd (invoke no_repr frozen (Acl acl_gone) [])))) =
     Inr \<lparr>status_code = 0, error_code = 404, metadata = PNone\<rparr>"
    by code_simp
  have k: "incus_to_module_state \<lparr>status_code = 0, error_code = 404, metadata = PNone\<rparr> =
     Inr ''absent''"
    by (simp add: incus_to_module_state_def)
  have ro: "\<forall>rq. \<not> is_write rq \<longrightarrow> snd (frozen rq []) = []"
    by (simp add: frozen_def is_write_def)
  have e: "fst (invoke no_repr frozen (Acl acl_gone) []) =
     Exit_json \<lparr>changed = False, old_state = PStr ''absent'',
        rdiff = \<lparr>before = [(''acl'', PNone), (''state'', PStr ''absent'')],
                 after = [(''acl'', PNone), (''state'', PStr ''absent'')]\<rparr>,
        resource_key = ''acl'', resource = PNone\<rparr>"
    by code_simp
  have n: "list_all (\<lambda>c. \<not> is_write (fst c))
     (calls (snd (invoke no_repr frozen (Acl acl_gone) [])))"
    using absent_stays_absent [OF d f k] by (simp add: list_all_iff)
  have "\<exists>r. fst (invoke no_repr frozen (Acl acl_gone) []) = Exit_json r \<and> \<not> changed r \<and>
          old_state r = PStr ''absent''"
    using absent_stays_absent [OF d f k] ro by blast
  then show ?thesis
    using d f k n e by simp
qed

section \<open>Ports in the payload\<close>

text \<open>
  Claim C8. Whenever the load-balancer module's \<open>_present\<close> sends a request, it is one
  write whose payload has a \<open>ports\<close> entry with one dictionary per element of the ports
  list, in order, with the same keys; its \<open>listen_port\<close> is the string
  \<open>str(listen_port)\<close> and every other key keeps its value. Whenever the forward
  module's \<open>_present\<close> sends a request, the \<open>ports\<close> entry of its payload is the ports
  list itself. Outside check mode both do send the request (the load balancer when
  every port has a \<open>listen_port\<close>).
\<close>

theorem ports_in_payload:
  "(calls (snd (lb_present crepr client self st)) \<noteq> calls st \<longrightarrow>
      (\<exists>rq res p out.
         calls (snd (lb_present crepr client self st)) = calls st @ [(rq, res)] \<and>
         is_write rq \<and> payload rq = Some (PDict p) \<and>
         map_of p ''ports'' = Some (PList out) \<and>
         length out = length (lb_ports self) \<and>
         (\<forall>i < length (lb_ports self). \<exists>v d.
            map_of (lb_ports self ! i) ''listen_port'' = Some v \<and> out ! i = PDict d \<and>
            map_of d ''listen_port'' = Some (PStr (py_str crepr v)) \<and>
            (\<forall>k. k \<noteq> ''listen_port'' \<longrightarrow> map_of d k = map_of (lb_ports self ! i) k) \<and>
            map fst d = map fst (lb_ports self ! i)))) \<and>
   (\<not> check_mode self \<and> map_of (diff_before st) ''state'' = Some bs \<and>
    (\<forall>port \<in> set (lb_ports self). map_of port ''listen_port'' \<noteq> None) \<longrightarrow>
      calls (snd (lb_present crepr client self st)) \<noteq> calls st) \<and>
   (calls (snd (forward_present client fself st2)) \<noteq> calls st2 \<and>
    forward_ports fself = PList ps \<longrightarrow>
      (\<exists>rq res p.
         calls (snd (forward_present client fself st2)) = calls st2 @ [(rq, res)] \<and>
         is_write rq \<and> payload rq = Some (PDict p) \<and>
         map_of p ''ports'' = Some (PList ps))) \<and>
   (\<not> check_mode fself \<and> map_of (diff_before st2) ''state'' = Some bs2 \<longrightarrow>
      calls (snd (forward_present client fself st2)) \<noteq> calls st2)"
proof (intro conjI impI)
  assume "calls (snd (lb_present crepr client self st)) \<noteq> calls st"
  from lb_present_call [OF this] obtain rq res p out where
    c: "calls (snd (lb_present crepr client self st)) = calls st @ [(rq, res)]"
       "is_write rq" "payload rq = Some (PDict p)" "map_of p ''ports'' = Some (PList out)"
    and o: "lb_port_list crepr (lb_ports self) = Inr out"
    by blast
  show "\<exists>rq res p out.
         calls (snd (lb_present crepr client self st)) = calls st @ [(rq, res)] \<and>
         is_write rq \<and> payload rq = Some (PDict p) \<and>
         map_of p ''ports'' = Some (PList out) \<and>
         length out = length (lb_ports self) \<and>
         (\<forall>i < length (lb_ports self). \<exists>v d.
            map_of (lb_ports self ! i) ''listen_port'' = Some v \<and> out ! i = PDict d \<and>
            map_of d ''listen_port'' = Some (PStr (py_str crepr v)) \<and>
            (\<forall>k. k \<noteq> ''listen_port'' \<longrightarrow> map_of d k = map_of (lb_ports self ! i) k) \<and>
            map fst d = map fst (lb_ports self ! i))"
    using c lb_port_list_coerces [OF o] by blast
next
  assume a: "\<not> check_mode self \<and> map_of (diff_before st) ''state'' = Some bs \<and>
    (\<forall>port \<in> set (lb_ports self). map_of port ''listen_port'' \<noteq> None)"
  then obtain out where "lb_port_list crepr (lb_ports self) = Inr out"
    using lb_port_list_total [of "lb_ports self" crepr] by blast
  then show "calls (snd (lb_present crepr client self st)) \<noteq> calls st"
    using a
    by (auto simp: lb_present_def lb_payload_def unless_check_def query_raw_def Let_def
             split: prod.splits sum.splits)
next
  assume a: "calls (snd (forward_present client fself st2)) \<noteq> calls st2 \<and>
    forward_ports fself = PList ps"
  from forward_present_call [of client fself st2] a obtain rq res where
    c: "calls (snd (forward_present client fself st2)) = calls st2 @ [(rq, res)]"
       "is_write rq" "payload rq = Some (PDict (forward_payload fself))"
    by blast
  have "map_of (forward_payload fself) ''ports'' = Some (PList ps)"
    using a by (cases ps) (simp_all add: forward_payload_def py_or_def)
  then show "\<exists>rq res p.
         calls (snd (forward_present client fself st2)) = calls st2 @ [(rq, res)] \<and>
         is_write rq \<and> payload rq = Some (PDict p) \<and>
         map_of p ''ports'' = Some (PList ps)"
    using c by blast
next
  assume "\<not> check_mode fself \<and> map_of (diff_before st2) ''state'' = Some bs2"
  then show "calls (snd (forward_present client fself st2)) \<noteq> calls st2"
    by (auto simp: forward_present_def unless_check_def query_raw_def Let_def
             split: prod.splits sum.splits)
qed

text \<open>
  The requests sent for a load balancer and a forward that do not exist yet: the
  integer port 80 is the string \<open>80\<close> in the first and stays an integer in the second.
\<close>

theorem ports_in_payload_witness:
  "calls (snd (lb_present no_repr scripted lb_demo (seen ''loadbalancer'' ''absent''))) =
     [(write_request ''POST'' ''/1.0/networks/net0/load-balancers''
         (Some (PDict
           [(''listen_address'', PStr ''192.0.2.1''), (''description'', PStr ''web''),
            (''network'', PStr ''net0''), (''config'', PDict []), (''backends'', PList []),
            (''ports'',
             PList [PDict [(''protocol'', PStr ''tcp''), (''listen_port'', PStr ''80''),
                           (''target_backend'', PList [PStr ''b1''])],
                    PDict [(''listen_port'', PStr ''443'')]])])),
       ok_resp PNone)] \<and>
   calls (snd (forward_present scripted forward_demo (seen ''forward'' ''absent''))) =
     [(write_request ''POST'' ''/1.0/network/net0/forwards''
         (Some (PDict
           [(''listen_address'', PStr ''192.0.2.1''), (''description'', PStr ''web''),
            (''config'', PDict []),
            (''ports'',
             PList [PDict [(''protocol'', PStr ''tcp''), (''listen_port'', PInt 80)]])])),
       ok_resp PNone)] \<and>
   calls (snd (lb_present no_repr scripted lb_demo (seen ''loadbalancer'' ''absent''))) \<noteq>
     calls (seen ''loadbalancer'' ''absent'') \<and>
   calls (snd (forward_present scripted forward_demo (seen ''forward'' ''absent''))) \<noteq>
     calls (seen ''forward'' ''absent'')"
proof -
  have a: "calls (snd (lb_present no_repr scripted lb_demo (seen ''loadbalancer'' ''absent''))) =
     [(write_request ''POST'' ''/1.0/networks/net0/load-balancers''
         (Some (PDict
           [(''listen_address'', PStr ''192.0.2.1''), (''description'', PStr ''web''),
            (''network'', PStr ''net0''), (''config'', PDict []), (''backends'', PList []),
            (''ports'',
             PList [PDict [(''protocol'', PStr ''tcp''), (''listen_port'', PStr ''80''),
                           (''target_backend'', PList [PStr ''b1''])],
                    PDict [(''listen_port'', PStr ''443'')]])])),
       ok_resp PNone)]"
    by code_simp
  have b: "calls (snd (forward_present scripted forward_demo (seen ''forward'' ''absent''))) =
     [(write_request ''POST'' ''/1.0/network/net0/forwards''
         (Some (PDict
           [(''listen_address'', PStr ''192.0.2.1''), (''description'', PStr ''web''),
            (''config'', PDict []),
            (''ports'',
             PList [PDict [(''protocol'', PStr ''tcp''), (''listen_port'', PInt 80)]])])),
       ok_resp PNone)]"
    by code_simp
  have h1: "\<not> check_mode lb_demo \<and>
    map_of (diff_before (seen ''loadbalancer'' ''absent'')) ''state'' = Some (PStr ''absent'') \<and>
    (\<forall>port \<in> set (lb_ports lb_demo). map_of port ''listen_port'' \<noteq> None)"
    by (simp add: lb_demo_def seen_def)
  have h2: "\<not> check_mode forward_demo \<and>
    map_of (diff_before (seen ''forward'' ''absent'')) ''state'' = Some (PStr ''absent'')"
    by (simp add: forward_demo_def seen_def)
  have c: "calls (snd (lb_present no_repr scripted lb_demo (seen ''loadbalancer'' ''absent''))) \<noteq>
     calls (seen ''loadbalancer'' ''absent'')"
    using h1 ports_in_payload [where self = lb_demo and st = "seen ''loadbalancer'' ''absent''"
        and crepr = no_repr and client = scripted and bs = "PStr ''absent''"]
    by blast
  have d: "calls (snd (forward_present scripted forward_demo (seen ''forward'' ''absent''))) \<noteq>
     calls (seen ''forward'' ''absent'')"
    using h2 ports_in_payload [where fself = forward_demo and ?st2.0 = "seen ''forward'' ''absent''"
        and client = scripted and ?bs2.0 = "PStr ''absent''"]
    by blast
  show ?thesis using a b c d by simp
qed

section \<open>The action log of the peer module\<close>

text \<open>
  Claim C9 says that under check mode the peer module's \<open>_present\<close> returns \<open>None\<close>
  without recording an action in \<open>self.actions\<close>. It does return \<open>None\<close>, but the
  \<open>append\<close> stands after the check-mode branch and runs in both modes. A dry run
  creating a peer on a remote system that has none:
\<close>

theorem peer_present_records_under_check_mode:
  "actions (snd (invoke no_repr frozen (Peer peer_dry) [])) = [''create'']"
  by code_simp

text \<open>
  Claim C9, amended. Under check mode both paths of the peer module return \<open>None\<close>,
  send nothing and record the intended action: \<open>_absent\<close> appends \<open>delete\<close> when the
  resource exists (and nothing when it is already absent), \<open>_present\<close> appends
  \<open>update\<close> when the resource exists and \<open>create\<close> otherwise.
\<close>

theorem peer_check_mode_actions:
  assumes "check_mode self" and "map_of (diff_before st) ''state'' = Some (PStr bs)"
  shows "peer_present client self st =
           (Inr None,
            st\<lparr>actions := actions st @ [if bs = ''present'' then ''update'' else ''create'']\<rparr>) \<and>
         peer_absent client self st =
           (Inr None, if bs = ''absent'' then st else st\<lparr>actions := actions st @ [''delete'']\<rparr>)"
  using assms by (simp add: peer_present_def peer_absent_def Let_def)

text \<open>A dry run of both paths against an existing peer.\<close>

theorem peer_check_mode_actions_witness:
  "check_mode peer_dry \<and>
   map_of (diff_before (peer_seen ''present'')) ''state'' = Some (PStr ''present'') \<and>
   peer_present frozen peer_dry (peer_seen ''present'') =
     (Inr None, (peer_seen ''present'')\<lparr>actions := [''update'']\<rparr>) \<and>
   peer_absent frozen peer_dry (peer_seen ''present'') =
     (Inr None, (peer_seen ''present'')\<lparr>actions := [''delete'']\<rparr>)"
proof -
  have c: "check_mode peer_dry" by (simp add: peer_dry_def)
  have b: "map_of (diff_before (peer_seen ''present'')) ''state'' = Some (PStr ''present'')"
    by (simp add: peer_seen_def)
  have a: "actions (peer_seen ''present'') = []" by (simp add: peer_seen_def)
  show ?thesis using c b a peer_check_mode_actions [OF c b, of frozen] by simp
qed

section \<open>A port without listen_port\<close>

text \<open>
  Claim C10. In the load-balancer module, when some element of the ports list has no
  \<open>listen_port\<close> key, \<open>_present\<close> raises \<open>KeyError\<close> while building the payload,
  before the check-mode test and without sending anything, in check mode or not; an
  invocation with desired state \<open>present\<close> whose first fetch returned and was
  classified ends with that \<open>KeyError\<close> uncaught, having made the first fetch only.
\<close>

theorem lb_missing_listen_port:
  assumes "port \<in> set (lb_ports self)" and "map_of port ''listen_port'' = None"
  shows "(map_of (diff_before st) ''state'' = Some bs \<longrightarrow>
            lb_present crepr client self st = (Inl (KeyError ''listen_port''), st)) \<and>
         (state self = ''present'' \<and> lb_get_lb client self (init_state s) = (Inr r1, st1) \<and>
          incus_to_module_state r1 = Inr bs' \<longrightarrow>
            fst (lb_run crepr client self s) = Uncaught (KeyError ''listen_port'') \<and>
            calls (snd (lb_run crepr client self s)) = calls st1 \<and>
            length (calls st1) = 1)"
proof -
  have p: "lb_payload crepr self = Inl (KeyError ''listen_port'')"
    using lb_port_list_missing [OF assms] by (simp add: lb_payload_def)
  have a: "lb_present crepr client self st = (Inl (KeyError ''listen_port''), st)"
    if "map_of (diff_before st) ''state'' = Some bs" for st :: "'a mstate" and bs
    using that p by (simp add: lb_present_def Let_def)
  have b: "fst (lb_run crepr client self s) = Uncaught (KeyError ''listen_port'') \<and>
            calls (snd (lb_run crepr client self s)) = calls st1 \<and> length (calls st1) = 1"
    if t: "state self = ''present''" and f: "lb_get_lb client self (init_state s) = (Inr r1, st1)"
      and k: "incus_to_module_state r1 = Inr bs'"
  proof -
    have d: "diff_before st1 = []" "length (calls st1) = 1"
      using f by (auto simp: lb_get_lb_def query_raw_def init_state_def split: prod.splits)
    define st3 where "st3 = st1\<lparr>diff_before := [(''loadbalancer'', metadata r1), (''state'', PStr bs')]\<rparr>"
    have "lb_present crepr client self st3 = (Inl (KeyError ''listen_port''), st3)"
      by (rule a [of st3 "PStr bs'"]) (simp add: st3_def)
    then have "run_try ''loadbalancer'' (lb_get_lb client self) (lb_getattr crepr client self)
                 (state self) (init_state s) = (Inl (KeyError ''listen_port''), st3)"
      using t f k d
      by (simp add: run_try_def ACTION_DISPATCH_def lb_getattr_def st3_def Let_def)
    then show ?thesis using d by (simp add: lb_run_def run_def st3_def)
  qed
  show ?thesis using a b by blast
qed

text \<open>A dry run with one port that has a protocol and no \<open>listen_port\<close>.\<close>

theorem lb_missing_listen_port_witness:
  "[(''protocol'', PStr ''tcp'')] \<in> set (lb_ports lb_bad) \<and>
   map_of [(''protocol'', PStr ''tcp'')] ''listen_port'' = None \<and>
   check_mode lb_bad \<and> state lb_bad = ''present'' \<and>
   fst (lb_get_lb frozen lb_bad (init_state [])) =
     Inr \<lparr>status_code = 0, error_code = 404, metadata = PNone\<rparr> \<and>
   incus_to_module_state \<lparr>status_code = 0, error_code = 404, metadata = PNone\<rparr> =
     Inr ''absent'' \<and>
   fst (lb_run no_repr frozen lb_bad []) = Uncaught (KeyError ''listen_port'') \<and>
   map (meth \<circ> fst) (calls (snd (lb_run no_repr frozen lb_bad []))) = [''GET'']"
proof -
  have p: "[(''protocol'', PStr ''tcp'')] \<in> set (lb_ports lb_bad)"
    by (simp add: lb_bad_def)
  have n: "map_of [(''protocol'', PStr ''tcp'')] ''listen_port'' = None" by simp
  have c: "check_mode lb_bad" "state lb_bad = ''present''"
    by (simp_all add: lb_bad_def lb_demo_def)
  have f: "fst (lb_get_lb frozen lb_bad (init_state [])) =
     Inr \<lparr>status_code = 0, error_code = 404, metadata = PNone\<rparr>"
    by code_simp
  then have g: "lb_get_lb frozen lb_bad (init_state []) =
     (Inr \<lparr>status_code = 0, error_code = 404, metadata = PNone\<rparr>,
      snd (lb_get_lb frozen lb_bad (init_state [])))"
    by (simp add: prod_eq_iff)
  have k: "incus_to_module_state \<lparr>status_code = 0, error_code = 404, metadata = PNone\<rparr> =
     Inr ''absent''"
    by (simp add: incus_to_module_state_def)
  have m: "map (meth \<circ> fst) (calls (snd (lb_get_lb frozen lb_bad (init_state [])))) = [''GET'']"
    by code_simp
  have "fst (lb_run no_repr frozen lb_bad []) = Uncaught (KeyError ''listen_port'') \<and>
        calls (snd (lb_run no_repr frozen lb_bad [])) =
          calls (snd (lb_get_lb frozen lb_bad (init_state [])))"
    using lb_missing_listen_port [OF p n, of _ _ no_repr frozen] c(2) g k by blast
  then show ?thesis using p n c f k m by simp
qed

end
